theory Spec2Isabelle
  imports Complex_Main
begin

section \<open>Values shared by all components\<close>

text \<open>
  Timestamps: the source keeps ISO-8601 strings produced by \<^verbatim>\<open>new Date().toISOString()\<close>
  and reads them back with \<^verbatim>\<open>new Date(s).getTime()\<close>. The model keeps the number of
  milliseconds since the epoch, so that printing and parsing are the identity.
\<close>

type_synonym timestamp = int

text \<open>
  Free-form bags (\<^verbatim>\<open>Record<string, unknown>\<close>: job payloads, issue contexts, handler
  results) are JSON objects: association lists in insertion order.
\<close>

datatype json =
    JNull
  | JBool bool
  | JNum int
  | JStr string
  | JArr "json list"
  | JObj "(string \<times> json) list"

type_synonym bag = "(string \<times> json) list"

text \<open>Property read \<^verbatim>\<open>o.k\<close>: \<open>None\<close> is \<^verbatim>\<open>undefined\<close>.\<close>

definition get_prop :: "bag \<Rightarrow> string \<Rightarrow> json option" where
  "get_prop b k = map_of b k"

text \<open>JavaScript truthiness of a property that may be absent.\<close>

fun truthy :: "json option \<Rightarrow> bool" where
  "truthy None = False"
| "truthy (Some JNull) = False"
| "truthy (Some (JBool b)) = b"
| "truthy (Some (JNum n)) = (n \<noteq> 0)"
| "truthy (Some (JStr s)) = (s \<noteq> [])"
| "truthy (Some (JArr xs)) = True"
| "truthy (Some (JObj kvs)) = True"

text \<open>
  A property the source casts to \<^verbatim>\<open>string\<close> and splices into a template literal. The
  declared type is taken at its word: for a value that is not a string the model
  yields the empty string.
\<close>

fun as_string :: "json option \<Rightarrow> string" where
  "as_string (Some (JStr s)) = s"
| "as_string _ = []"

text \<open>
  A JavaScript \<^verbatim>\<open>Map\<close> (and an object under spread): an association list in insertion
  order. \<^verbatim>\<open>set\<close> overwrites an existing key in place and appends a new one;
  \<^verbatim>\<open>{ ...o, k: v }\<close> behaves the same way.
\<close>

fun Map_set :: "('k \<times> 'v) list \<Rightarrow> 'k \<Rightarrow> 'v \<Rightarrow> ('k \<times> 'v) list" where
  "Map_set [] k v = [(k, v)]"
| "Map_set ((k', v') # kvs) k v =
     (if k' = k then (k, v) # kvs else (k', v') # Map_set kvs k v)"

definition Map_get :: "('k \<times> 'v) list \<Rightarrow> 'k \<Rightarrow> 'v option" where
  "Map_get m k = map_of m k"

definition Map_delete :: "('k \<times> 'v) list \<Rightarrow> 'k \<Rightarrow> ('k \<times> 'v) list" where
  "Map_delete m k = filter (\<lambda>kv. fst kv \<noteq> k) m"

definition Map_size :: "('k \<times> 'v) list \<Rightarrow> nat" where
  "Map_size m = length m"

text \<open>Decimal rendering of a count inside a template literal.\<close>

definition digit_char :: "nat \<Rightarrow> char" where
  "digit_char d = ''0123456789'' ! d"

fun show_nat :: "nat \<Rightarrow> string" where
  "show_nat n = (if n < 10 then [digit_char n] else show_nat (n div 10) @ [digit_char (n mod 10)])"

declare show_nat.simps [simp del]

definition show_int :: "int \<Rightarrow> string" where
  "show_int i = (if i < 0 then CHR ''-'' # show_nat (nat (- i)) else show_nat (nat i))"

text \<open>\<^verbatim>\<open>Math.round\<close>: the nearest integer, a tie going up.\<close>

definition Math_round :: "rat \<Rightarrow> int" where
  "Math_round x = \<lfloor>x + 1 / 2\<rfloor>"

text \<open>
  A JavaScript number is an IEEE 754 double, and a division or multiplication gives the
  double nearest to the exact result, a tie going to the even significand. \<open>to_double\<close>
  is that rounding on the rationals: 53 significant bits in the binade of the argument,
  the fixed step \<open>2 ^ - 1074\<close> below the normal range. Overflow to \<^verbatim>\<open>Infinity\<close> is left
  out: no quantity of the program comes near \<open>2 ^ 1024\<close>. Integers below \<open>2 ^ 53\<close> and
  their quarters are doubles themselves, so sums of scores and counters need no
  rounding.
\<close>

definition pow2 :: "int \<Rightarrow> rat" where
  "pow2 k = (if k \<ge> 0 then 2 ^ nat k else 1 / 2 ^ nat (- k))"

function bit_length :: "int \<Rightarrow> int" where
  "bit_length n = (if n \<le> 0 then 0 else 1 + bit_length (n div 2))"
  by pat_completeness auto

termination
  by (relation "measure nat") auto

declare bit_length.simps [simp del]

text \<open>The binade of a positive rational \<open>x\<close>: the \<open>k\<close> with \<open>2 ^ k \<le> x < 2 ^ (k + 1)\<close>.\<close>

definition binade :: "rat \<Rightarrow> int" where
  "binade x =
     (let (p, q) = quotient_of x;
          k = bit_length p - bit_length q
      in if pow2 k \<le> x then k else k - 1)"

definition round_half_even :: "rat \<Rightarrow> int" where
  "round_half_even x =
     (let f = \<lfloor>x\<rfloor>; d = x - of_int f
      in if d < 1 / 2 then f else if d > 1 / 2 then f + 1 else if even f then f else f + 1)"

definition to_double :: "rat \<Rightarrow> rat" where
  "to_double x =
     (if x = 0 then 0
      else let a = \<bar>x\<bar>;
               ulp = pow2 (max (binade a - 52) (- 1074));
               m = of_int (round_half_even (a / ulp)) * ulp
           in if x < 0 then - m else m)"

text \<open>\<^verbatim>\<open>String.prototype.toLowerCase\<close> on the ASCII range.\<close>

definition lower_char :: "char \<Rightarrow> char" where
  "lower_char c =
     (case map_of (zip ''ABCDEFGHIJKLMNOPQRSTUVWXYZ'' ''abcdefghijklmnopqrstuvwxyz'') c of
        Some l \<Rightarrow> l
      | None \<Rightarrow> c)"

definition toLowerCase :: "string \<Rightarrow> string" where
  "toLowerCase s = map lower_char s"

definition startsWith :: "string \<Rightarrow> string \<Rightarrow> bool" where
  "startsWith s p = (take (length p) s = p)"


section \<open>types.ts\<close>

text \<open>
  Enumerations are datatypes; where two of them share a literal (\<^verbatim>\<open>'pending'\<close>,
  \<^verbatim>\<open>'critical'\<close>, \<^verbatim>\<open>'high'\<close>), a prefix tells the constructors apart. Interfaces are
  records, an optional field is an \<open>option\<close>. Counters (\<^verbatim>\<open>retryCount\<close>, \<^verbatim>\<open>maxRetries\<close>,
  \<^verbatim>\<open>attempts\<close>, \<^verbatim>\<open>maxAttempts\<close>, \<^verbatim>\<open>healingAttempts\<close>) are natural numbers: every producer
  starts them at zero and the code only increments or resets them. Scores are integers.
\<close>

datatype JobStatus = J_pending | J_running | J_completed | J_failed | J_healing

datatype JobPriority = P_critical | P_high | P_normal | P_low

datatype JobType =
    scrape_repo | sync_content | check_cohesiveness | self_heal
  | update_cache | full_sync | cleanup_job | notify

record AgentJob =
  j_id :: string
  j_type :: JobType
  j_status :: JobStatus
  j_priority :: JobPriority
  j_payload :: bag
  j_retryCount :: nat
  j_maxRetries :: nat
  j_createdAt :: timestamp
  j_updatedAt :: timestamp
  j_completedAt :: "timestamp option"
  j_error :: "string option"
  j_result :: "json option"
  j_healingAttempts :: nat

datatype ScrapeType = S_full | S_incremental | S_structure | S_content | S_metadata

record ScrapeTask =
  s_id :: string
  repoFullName :: string
  scrapeType :: ScrapeType
  lastScrapeAt :: "timestamp option"
  s_etag :: "string option"
  s_priority :: JobPriority

datatype FileType = F_file | F_dir

record FileEntry =
  f_path :: string
  f_type :: FileType
  f_size :: "nat option"
  f_sha :: "string option"

datatype ConfigType = C_package_json | C_wrangler_toml | C_tsconfig_json | C_other

record ConfigFile =
  c_path :: string
  c_type :: ConfigType

record RepoStructure =
  files :: "FileEntry list"
  directories :: "string list"
  configFiles :: "ConfigFile list"
  hasPackageJson :: bool
  hasWranglerConfig :: bool
  hasTsConfig :: bool
  primaryLanguage :: "string option"

datatype IssueType =
    missing_config | outdated_dependency | naming_inconsistency
  | structure_mismatch | missing_type_definitions | deprecated_pattern

datatype Severity = critical | warning | info

record CohesivenessIssue =
  i_type :: IssueType
  severity :: Severity
  i_message :: string
  i_path :: "string option"
  suggestion :: "string option"
  autoFixable :: bool

record CohesivenessScore =
  overall :: int
  structureScore :: int
  naming :: int
  dependencies :: int
  config :: int
  lastCheckedAt :: timestamp
  issues :: "CohesivenessIssue list"

record RepoData =
  fullName :: string
  r_name :: string
  description :: "string option"
  defaultBranch :: string
  language :: "string option"
  topics :: "string list"
  visibility :: string
  r_structure :: RepoStructure
  lastScrapedAt :: timestamp
  r_etag :: "string option"
  cohesiveness :: CohesivenessScore


datatype HealingStrategy =
    retry_with_backoff | clear_cache_retry | switch_endpoint | reduce_batch_size
  | notify_and_skip | full_reset | escalate_to_agent

datatype HealingSeverity = H_low | H_medium | H_high | H_critical

datatype HealingStatus = pending | attempting | resolved | escalated

record HealingIssue =
  h_type :: string
  h_severity :: HealingSeverity
  h_description :: string
  h_context :: bag
  originalError :: "string option"
  stackTrace :: "string option"

record ResolutionMetrics =
  timeToResolve :: int
  resourcesUsed :: nat

record HealingResolution =
  r_strategy :: HealingStrategy
  success :: bool
  message :: string
  attemptNumber :: nat
  resolvedAt :: timestamp
  r_metrics :: "ResolutionMetrics option"

record HealingTask =
  t_id :: string
  jobId :: string
  issue :: HealingIssue
  strategy :: HealingStrategy
  attempts :: nat
  maxAttempts :: nat
  status :: HealingStatus
  resolution :: "HealingResolution option"
  createdAt :: timestamp
  updatedAt :: timestamp

text \<open>
  \<^verbatim>\<open>JSON.stringify\<close> of the values the source embeds in a payload or an issue context.
  A key whose value is \<^verbatim>\<open>undefined\<close> is left out, as the serialiser does.
\<close>

definition opt_key :: "string \<Rightarrow> ('a \<Rightarrow> json) \<Rightarrow> 'a option \<Rightarrow> bag" where
  "opt_key k enc v = (case v of None \<Rightarrow> [] | Some x \<Rightarrow> [(k, enc x)])"

fun JobType_name :: "JobType \<Rightarrow> string" where
  "JobType_name scrape_repo = ''scrape_repo''"
| "JobType_name sync_content = ''sync_content''"
| "JobType_name check_cohesiveness = ''check_cohesiveness''"
| "JobType_name self_heal = ''self_heal''"
| "JobType_name update_cache = ''update_cache''"
| "JobType_name full_sync = ''full_sync''"
| "JobType_name cleanup_job = ''cleanup''"
| "JobType_name notify = ''notify''"

fun JobPriority_name :: "JobPriority \<Rightarrow> string" where
  "JobPriority_name P_critical = ''critical''"
| "JobPriority_name P_high = ''high''"
| "JobPriority_name P_normal = ''normal''"
| "JobPriority_name P_low = ''low''"

fun ScrapeType_name :: "ScrapeType \<Rightarrow> string" where
  "ScrapeType_name S_full = ''full''"
| "ScrapeType_name S_incremental = ''incremental''"
| "ScrapeType_name S_structure = ''structure''"
| "ScrapeType_name S_content = ''content''"
| "ScrapeType_name S_metadata = ''metadata''"

fun IssueType_name :: "IssueType \<Rightarrow> string" where
  "IssueType_name missing_config = ''missing_config''"
| "IssueType_name outdated_dependency = ''outdated_dependency''"
| "IssueType_name naming_inconsistency = ''naming_inconsistency''"
| "IssueType_name structure_mismatch = ''structure_mismatch''"
| "IssueType_name missing_type_definitions = ''missing_type_definitions''"
| "IssueType_name deprecated_pattern = ''deprecated_pattern''"

fun Severity_name :: "Severity \<Rightarrow> string" where
  "Severity_name critical = ''critical''"
| "Severity_name warning = ''warning''"
| "Severity_name info = ''info''"

fun HealingSeverity_name :: "HealingSeverity \<Rightarrow> string" where
  "HealingSeverity_name H_low = ''low''"
| "HealingSeverity_name H_medium = ''medium''"
| "HealingSeverity_name H_high = ''high''"
| "HealingSeverity_name H_critical = ''critical''"

definition ScrapeTask_json :: "ScrapeTask \<Rightarrow> json" where
  "ScrapeTask_json t = JObj (
     [(''id'', JStr (s_id t)), (''repoFullName'', JStr (repoFullName t)),
      (''scrapeType'', JStr (ScrapeType_name (scrapeType t)))]
     @ opt_key ''lastScrapeAt'' JNum (lastScrapeAt t)
     @ opt_key ''etag'' JStr (s_etag t)
     @ [(''priority'', JStr (JobPriority_name (s_priority t)))])"

definition CohesivenessIssue_json :: "CohesivenessIssue \<Rightarrow> json" where
  "CohesivenessIssue_json i = JObj (
     [(''type'', JStr (IssueType_name (i_type i))),
      (''severity'', JStr (Severity_name (severity i))),
      (''message'', JStr (i_message i))]
     @ opt_key ''path'' JStr (i_path i)
     @ opt_key ''suggestion'' JStr (suggestion i)
     @ [(''autoFixable'', JBool (autoFixable i))])"

definition HealingIssue_json :: "HealingIssue \<Rightarrow> json" where
  "HealingIssue_json i = JObj (
     [(''type'', JStr (h_type i)),
      (''severity'', JStr (HealingSeverity_name (h_severity i))),
      (''description'', JStr (h_description i)),
      (''context'', JObj (h_context i))]
     @ opt_key ''originalError'' JStr (originalError i)
     @ opt_key ''stackTrace'' JStr (stackTrace i))"


fun JobStatus_name :: "JobStatus \<Rightarrow> string" where
  "JobStatus_name J_pending = ''pending''"
| "JobStatus_name J_running = ''running''"
| "JobStatus_name J_completed = ''completed''"
| "JobStatus_name J_failed = ''failed''"
| "JobStatus_name J_healing = ''healing''"

fun HealingStrategy_name :: "HealingStrategy \<Rightarrow> string" where
  "HealingStrategy_name retry_with_backoff = ''retry_with_backoff''"
| "HealingStrategy_name clear_cache_retry = ''clear_cache_retry''"
| "HealingStrategy_name switch_endpoint = ''switch_endpoint''"
| "HealingStrategy_name reduce_batch_size = ''reduce_batch_size''"
| "HealingStrategy_name notify_and_skip = ''notify_and_skip''"
| "HealingStrategy_name full_reset = ''full_reset''"
| "HealingStrategy_name escalate_to_agent = ''escalate_to_agent''"

fun HealingStatus_name :: "HealingStatus \<Rightarrow> string" where
  "HealingStatus_name pending = ''pending''"
| "HealingStatus_name attempting = ''attempting''"
| "HealingStatus_name resolved = ''resolved''"
| "HealingStatus_name escalated = ''escalated''"

definition AgentJob_json :: "AgentJob \<Rightarrow> json" where
  "AgentJob_json j = JObj (
     [(''id'', JStr (j_id j)), (''type'', JStr (JobType_name (j_type j))),
      (''status'', JStr (JobStatus_name (j_status j))),
      (''priority'', JStr (JobPriority_name (j_priority j))),
      (''payload'', JObj (j_payload j)),
      (''retryCount'', JNum (int (j_retryCount j))),
      (''maxRetries'', JNum (int (j_maxRetries j))),
      (''createdAt'', JNum (j_createdAt j)), (''updatedAt'', JNum (j_updatedAt j))]
     @ opt_key ''completedAt'' JNum (j_completedAt j)
     @ opt_key ''error'' JStr (j_error j)
     @ opt_key ''result'' id (j_result j)
     @ [(''healingAttempts'', JNum (int (j_healingAttempts j)))])"

definition ResolutionMetrics_json :: "ResolutionMetrics \<Rightarrow> json" where
  "ResolutionMetrics_json m = JObj
     [(''timeToResolve'', JNum (timeToResolve m)), (''resourcesUsed'', JNum (int (resourcesUsed m)))]"

definition HealingResolution_json :: "HealingResolution \<Rightarrow> json" where
  "HealingResolution_json r = JObj (
     [(''strategy'', JStr (HealingStrategy_name (r_strategy r))),
      (''success'', JBool (success r)), (''message'', JStr (message r)),
      (''attemptNumber'', JNum (int (attemptNumber r))), (''resolvedAt'', JNum (resolvedAt r))]
     @ opt_key ''metrics'' ResolutionMetrics_json (r_metrics r))"

definition HealingTask_json :: "HealingTask \<Rightarrow> json" where
  "HealingTask_json t = JObj (
     [(''id'', JStr (t_id t)), (''jobId'', JStr (jobId t)),
      (''issue'', HealingIssue_json (issue t)),
      (''strategy'', JStr (HealingStrategy_name (strategy t))),
      (''attempts'', JNum (int (attempts t))), (''maxAttempts'', JNum (int (maxAttempts t))),
      (''status'', JStr (HealingStatus_name (status t))),
      (''createdAt'', JNum (createdAt t)), (''updatedAt'', JNum (updatedAt t))]
     @ opt_key ''resolution'' HealingResolution_json (resolution t))"

definition CohesivenessScore_json :: "CohesivenessScore \<Rightarrow> json" where
  "CohesivenessScore_json c = JObj
     [(''overall'', JNum (overall c)), (''structure'', JNum (structureScore c)),
      (''naming'', JNum (naming c)), (''dependencies'', JNum (dependencies c)),
      (''config'', JNum (config c)), (''lastCheckedAt'', JNum (lastCheckedAt c)),
      (''issues'', JArr (map CohesivenessIssue_json (issues c)))]"

fun FileType_name :: "FileType \<Rightarrow> string" where
  "FileType_name F_file = ''file''"
| "FileType_name F_dir = ''dir''"

fun ConfigType_name :: "ConfigType \<Rightarrow> string" where
  "ConfigType_name C_package_json = ''package.json''"
| "ConfigType_name C_wrangler_toml = ''wrangler.toml''"
| "ConfigType_name C_tsconfig_json = ''tsconfig.json''"
| "ConfigType_name C_other = ''other''"

definition FileEntry_json :: "FileEntry \<Rightarrow> json" where
  "FileEntry_json f = JObj (
     [(''path'', JStr (f_path f)), (''type'', JStr (FileType_name (f_type f)))]
     @ opt_key ''size'' (\<lambda>n. JNum (int n)) (f_size f)
     @ opt_key ''sha'' JStr (f_sha f))"

definition ConfigFile_json :: "ConfigFile \<Rightarrow> json" where
  "ConfigFile_json c = JObj
     [(''path'', JStr (c_path c)), (''type'', JStr (ConfigType_name (c_type c)))]"

definition nullable :: "('a \<Rightarrow> json) \<Rightarrow> 'a option \<Rightarrow> json" where
  "nullable enc v = (case v of None \<Rightarrow> JNull | Some x \<Rightarrow> enc x)"

definition RepoStructure_json :: "RepoStructure \<Rightarrow> json" where
  "RepoStructure_json st = JObj
     [(''files'', JArr (map FileEntry_json (files st))),
      (''directories'', JArr (map JStr (directories st))),
      (''configFiles'', JArr (map ConfigFile_json (configFiles st))),
      (''hasPackageJson'', JBool (hasPackageJson st)),
      (''hasWranglerConfig'', JBool (hasWranglerConfig st)),
      (''hasTsConfig'', JBool (hasTsConfig st)),
      (''primaryLanguage'', nullable JStr (primaryLanguage st))]"

definition RepoData_json :: "RepoData \<Rightarrow> json" where
  "RepoData_json r = JObj (
     [(''fullName'', JStr (fullName r)), (''name'', JStr (r_name r)),
      (''description'', nullable JStr (description r)),
      (''defaultBranch'', JStr (defaultBranch r)),
      (''language'', nullable JStr (language r)),
      (''topics'', JArr (map JStr (topics r))),
      (''visibility'', JStr (visibility r)),
      (''structure'', RepoStructure_json (r_structure r)),
      (''lastScrapedAt'', JNum (lastScrapedAt r))]
     @ opt_key ''etag'' JStr (r_etag r)
     @ [(''cohesiveness'', CohesivenessScore_json (cohesiveness r))])"


section \<open>Cohesiveness scoring\<close>

text \<open>
  \<^verbatim>\<open>RepoSyncEngine.calculateCohesiveness\<close>. The four score variables and the issue list
  are the source's mutable locals; each \<^verbatim>\<open>if\<close> of the source is one step that returns
  the updated pair.
\<close>

definition calculateCohesiveness :: "RepoData \<Rightarrow> timestamp \<Rightarrow> CohesivenessScore" where
  "calculateCohesiveness repo now =
    (let issues0 = [];
         structureScore0 = (100 :: int);
         namingScore = (100 :: int);
         depsScore = (100 :: int);
         configScore0 = (100 :: int);
         st = r_structure repo;
         (configScore1, issues1) =
           (if \<not> hasPackageJson st
            then (configScore0 - 30, issues0 @ [\<lparr> i_type = missing_config, severity = warning,
                    i_message = ''Missing package.json'', i_path = None,
                    suggestion = Some ''Add package.json for dependency management'',
                    autoFixable = True \<rparr>])
            else (configScore0, issues0));
         (configScore2, issues2) =
           (if \<not> hasTsConfig st
            then (configScore1 - 20, issues1 @ [\<lparr> i_type = missing_config, severity = info,
                    i_message = ''Missing tsconfig.json'', i_path = None,
                    suggestion = Some ''Add TypeScript configuration for type safety'',
                    autoFixable = True \<rparr>])
            else (configScore1, issues1));
         (configScore3, issues3) =
           (if \<not> hasWranglerConfig st
            then (configScore2 - 25, issues2 @ [\<lparr> i_type = missing_config, severity = warning,
                    i_message = ''Missing wrangler.toml'', i_path = None,
                    suggestion = Some ''Add Cloudflare Workers configuration'',
                    autoFixable = True \<rparr>])
            else (configScore2, issues2));
         hasSrcDir = list_ex (\<lambda>d. d = ''src'' \<or> startsWith d ''src/'') (directories st);
         (structureScore1, issues4) =
           (if \<not> hasSrcDir \<and> length (files st) > 5
            then (structureScore0 - 20, issues3 @ [\<lparr> i_type = structure_mismatch, severity = info,
                    i_message = ''No src/ directory found'', i_path = None,
                    suggestion = Some ''Consider organizing source files in src/'',
                    autoFixable = False \<rparr>])
            else (structureScore0, issues3));
         hasReadme = list_ex (\<lambda>f. toLowerCase (f_path f) = ''readme.md'') (files st);
         (structureScore2, issues5) =
           (if \<not> hasReadme
            then (structureScore1 - 10, issues4 @ [\<lparr> i_type = missing_config, severity = info,
                    i_message = ''Missing README.md'', i_path = None,
                    suggestion = Some ''Add documentation'',
                    autoFixable = True \<rparr>])
            else (structureScore1, issues4));
         overall' = Math_round (of_int (structureScore2 + namingScore + depsScore + configScore3) / 4)
     in \<lparr> overall = overall', structureScore = structureScore2, naming = namingScore,
          dependencies = depsScore, config = configScore3, lastCheckedAt = now,
          issues = issues5 \<rparr>)"

text \<open>\<^verbatim>\<open>GitHubScraper.calculateInitialCohesiveness\<close>: the scraper's first score of a structure.\<close>

definition calculateInitialCohesiveness :: "RepoStructure \<Rightarrow> timestamp \<Rightarrow> CohesivenessScore" where
  "calculateInitialCohesiveness st now =
    (let configScore0 = (100 :: int);
         issues0 = [];
         (configScore1, issues1) =
           (if \<not> hasPackageJson st
            then (configScore0 - 30, issues0 @ [\<lparr> i_type = missing_config, severity = warning,
                    i_message = ''Missing package.json'', i_path = None,
                    suggestion = Some ''Add package.json for dependency management'',
                    autoFixable = True \<rparr>])
            else (configScore0, issues0));
         (configScore2, issues2) =
           (if \<not> hasTsConfig st
            then (configScore1 - 20, issues1 @ [\<lparr> i_type = missing_config, severity = info,
                    i_message = ''Missing tsconfig.json'', i_path = None,
                    suggestion = Some ''Add TypeScript configuration'',
                    autoFixable = True \<rparr>])
            else (configScore1, issues1));
         (configScore3, issues3) =
           (if \<not> hasWranglerConfig st
            then (configScore2 - 25, issues2 @ [\<lparr> i_type = missing_config, severity = warning,
                    i_message = ''Missing wrangler.toml'', i_path = None,
                    suggestion = Some ''Add Cloudflare Workers configuration'',
                    autoFixable = True \<rparr>])
            else (configScore2, issues2));
         hasSrcDir = list_ex (\<lambda>d. d = ''src'' \<or> startsWith d ''src/'') (directories st);
         structureScore0 = (100 :: int);
         (structureScore1, issues4) =
           (if \<not> hasSrcDir \<and> length (files st) > 5
            then (structureScore0 - 20, issues3 @ [\<lparr> i_type = structure_mismatch, severity = info,
                    i_message = ''No src/ directory found'', i_path = None,
                    suggestion = Some ''Consider organizing source files in src/'',
                    autoFixable = False \<rparr>])
            else (structureScore0, issues3))
     in \<lparr> overall = Math_round (of_int (configScore3 + structureScore1 + 100 + 100) / 4),
          structureScore = structureScore1, naming = 100, dependencies = 100,
          config = configScore3, lastCheckedAt = now, issues = issues4 \<rparr>)"


section \<open>The worker environment\<close>

text \<open>
  \<^verbatim>\<open>Env\<close>: the key-value namespaces, the three queues and the configuration strings the
  components use. A queue is the list of messages sent so far, oldest first. What the
  code takes from outside is part of the environment as well: the wall clock, the values
  \<^verbatim>\<open>crypto.randomUUID()\<close> and \<^verbatim>\<open>Math.random()\<close> return in turn, and for each binding
  whether a call on it throws (\<open>fault\<close> gives the error's message). The clock moves
  only when the code sleeps.

  A timestamp is serialised as its number; a stored value is the JSON that
  \<^verbatim>\<open>JSON.stringify\<close> writes.
\<close>

datatype binding =
    B_JOBS_KV | B_REPOS_KV | B_HEALING_KV | B_JOBS_QUEUE | B_SCRAPE_QUEUE | B_HEALING_QUEUE

record kv_entry =
  kv_value :: json
  expirationTtl :: "nat option"

record Env =
  JOBS_KV :: "string \<rightharpoonup> kv_entry"
  REPOS_KV :: "string \<rightharpoonup> kv_entry"
  HEALING_KV :: "string \<rightharpoonup> kv_entry"
  JOBS_QUEUE :: "AgentJob list"
  SCRAPE_QUEUE :: "ScrapeTask list"
  HEALING_QUEUE :: "HealingTask list"
  BLACKROAD_ORG :: string
  SELF_HEAL_ENABLED :: string
  fault :: "binding \<Rightarrow> string option"
  clock :: timestamp
  uuids :: "nat \<Rightarrow> string"
  uuid_count :: nat
  randoms :: "nat \<Rightarrow> rat"
  random_count :: nat

definition randomUUID :: "Env \<Rightarrow> string \<times> Env" where
  "randomUUID e = (uuids e (uuid_count e), e\<lparr>uuid_count := uuid_count e + 1\<rparr>)"

definition Math_random :: "Env \<Rightarrow> rat \<times> Env" where
  "Math_random e = (randoms e (random_count e), e\<lparr>random_count := random_count e + 1\<rparr>)"

definition sleep :: "nat \<Rightarrow> Env \<Rightarrow> Env" where
  "sleep ms e = e\<lparr>clock := clock e + int ms\<rparr>"

text \<open>
  A call on a binding either throws, leaving the environment as it is, or takes effect.
  \<open>Inl\<close> carries the message of the thrown \<^verbatim>\<open>Error\<close>.
\<close>

definition JOBS_QUEUE_send :: "AgentJob \<Rightarrow> Env \<Rightarrow> (string + unit) \<times> Env" where
  "JOBS_QUEUE_send j e =
     (case fault e B_JOBS_QUEUE of
        Some err \<Rightarrow> (Inl err, e)
      | None \<Rightarrow> (Inr (), e\<lparr>JOBS_QUEUE := JOBS_QUEUE e @ [j]\<rparr>))"

definition SCRAPE_QUEUE_send :: "ScrapeTask \<Rightarrow> Env \<Rightarrow> (string + unit) \<times> Env" where
  "SCRAPE_QUEUE_send t e =
     (case fault e B_SCRAPE_QUEUE of
        Some err \<Rightarrow> (Inl err, e)
      | None \<Rightarrow> (Inr (), e\<lparr>SCRAPE_QUEUE := SCRAPE_QUEUE e @ [t]\<rparr>))"

definition HEALING_QUEUE_send :: "HealingTask \<Rightarrow> Env \<Rightarrow> (string + unit) \<times> Env" where
  "HEALING_QUEUE_send t e =
     (case fault e B_HEALING_QUEUE of
        Some err \<Rightarrow> (Inl err, e)
      | None \<Rightarrow> (Inr (), e\<lparr>HEALING_QUEUE := HEALING_QUEUE e @ [t]\<rparr>))"

definition REPOS_KV_put :: "string \<Rightarrow> json \<Rightarrow> nat option \<Rightarrow> Env \<Rightarrow> (string + unit) \<times> Env" where
  "REPOS_KV_put k v ttl e =
     (case fault e B_REPOS_KV of
        Some err \<Rightarrow> (Inl err, e)
      | None \<Rightarrow> (Inr (), e\<lparr>REPOS_KV := (REPOS_KV e)(k \<mapsto> \<lparr>kv_value = v, expirationTtl = ttl\<rparr>)\<rparr>))"

definition REPOS_KV_delete :: "string \<Rightarrow> Env \<Rightarrow> (string + unit) \<times> Env" where
  "REPOS_KV_delete k e =
     (case fault e B_REPOS_KV of
        Some err \<Rightarrow> (Inl err, e)
      | None \<Rightarrow> (Inr (), e\<lparr>REPOS_KV := (REPOS_KV e)(k := None)\<rparr>))"

definition JOBS_KV_delete :: "string \<Rightarrow> Env \<Rightarrow> (string + unit) \<times> Env" where
  "JOBS_KV_delete k e =
     (case fault e B_JOBS_KV of
        Some err \<Rightarrow> (Inl err, e)
      | None \<Rightarrow> (Inr (), e\<lparr>JOBS_KV := (JOBS_KV e)(k := None)\<rparr>))"

definition HEALING_KV_put :: "string \<Rightarrow> json \<Rightarrow> nat option \<Rightarrow> Env \<Rightarrow> (string + unit) \<times> Env" where
  "HEALING_KV_put k v ttl e =
     (case fault e B_HEALING_KV of
        Some err \<Rightarrow> (Inl err, e)
      | None \<Rightarrow> (Inr (), e\<lparr>HEALING_KV := (HEALING_KV e)(k \<mapsto> \<lparr>kv_value = v, expirationTtl = ttl\<rparr>)\<rparr>))"

text \<open>An HTTP response of a durable object: the status and the JSON body.\<close>

record Response =
  status_code :: nat
  body :: json

definition json_response :: "nat \<Rightarrow> bag \<Rightarrow> Response" where
  "json_response code b = \<lparr> status_code = code, body = JObj b \<rparr>"

text \<open>
  Every durable object's \<^verbatim>\<open>fetch\<close> hands the request to an operation with
  \<^verbatim>\<open>return this.operation()\<close> inside its \<^verbatim>\<open>try\<close>. The promise is returned without
  \<^verbatim>\<open>await\<close>, so the \<^verbatim>\<open>catch\<close> of \<^verbatim>\<open>fetch\<close> never sees an exception of the operation: the
  promise that \<^verbatim>\<open>fetch\<close> returns rejects with it, and so does the caller's
  \<^verbatim>\<open>stub.fetch\<close>. An operation that can throw therefore has the result type
  \<open>string + Response\<close>: \<open>Inl err\<close> is the rejection the caller sees, with the object's
  state as it stands where the exception was thrown.
\<close>


section \<open>Self-healer\<close>

record StrategyConfig =
  cfg_maxAttempts :: nat
  backoffMs :: "nat list"
  nextStrategy :: "HealingStrategy option"

fun STRATEGY_CONFIGS :: "HealingStrategy \<Rightarrow> StrategyConfig" where
  "STRATEGY_CONFIGS retry_with_backoff =
     \<lparr> cfg_maxAttempts = 5, backoffMs = [1000, 2000, 4000, 8000, 16000],
       nextStrategy = Some clear_cache_retry \<rparr>"
| "STRATEGY_CONFIGS clear_cache_retry =
     \<lparr> cfg_maxAttempts = 2, backoffMs = [2000, 5000], nextStrategy = Some switch_endpoint \<rparr>"
| "STRATEGY_CONFIGS switch_endpoint =
     \<lparr> cfg_maxAttempts = 3, backoffMs = [1000, 3000, 5000],
       nextStrategy = Some reduce_batch_size \<rparr>"
| "STRATEGY_CONFIGS reduce_batch_size =
     \<lparr> cfg_maxAttempts = 3, backoffMs = [1000, 2000, 3000],
       nextStrategy = Some notify_and_skip \<rparr>"
| "STRATEGY_CONFIGS notify_and_skip =
     \<lparr> cfg_maxAttempts = 1, backoffMs = [0], nextStrategy = Some escalate_to_agent \<rparr>"
| "STRATEGY_CONFIGS full_reset =
     \<lparr> cfg_maxAttempts = 1, backoffMs = [5000], nextStrategy = Some escalate_to_agent \<rparr>"
| "STRATEGY_CONFIGS escalate_to_agent =
     \<lparr> cfg_maxAttempts = 1, backoffMs = [0], nextStrategy = None \<rparr>"

record HealingMetrics =
  totalAttempts :: nat
  successfulResolutions :: nat
  failedResolutions :: nat
  escalations :: nat
  averageTimeToResolve :: int

record StrategyStat =
  st_attempts :: nat
  st_successes :: nat
  st_failures :: nat

text \<open>
  The healer's in-memory state. \<open>tasks\<close> is the \<^verbatim>\<open>Map\<close> keyed by task id, \<open>strategies\<close>
  the object keyed by strategy name. Every operation ends with \<^verbatim>\<open>persist()\<close>, which
  writes this state to the object's storage; the model keeps the one copy.
\<close>

record SelfHealer =
  tasks :: "(string \<times> HealingTask) list"
  metrics :: HealingMetrics
  strategies :: "(HealingStrategy \<times> StrategyStat) list"

text \<open>
  \<^verbatim>\<open>backoffMs[i]\<close>: past the end of the array the read is \<^verbatim>\<open>undefined\<close>, and
  \<^verbatim>\<open>setTimeout\<close> then waits no time.
\<close>

definition backoff_at :: "StrategyConfig \<Rightarrow> nat \<Rightarrow> nat" where
  "backoff_at cfg i = (if i < length (backoffMs cfg) then backoffMs cfg ! i else 0)"

definition retryOriginalOperation :: "HealingTask \<Rightarrow> Env \<Rightarrow> (string + bool) \<times> Env" where
  "retryOriginalOperation task e =
     (if jobId task \<noteq> [] \<and> jobId task \<noteq> ''worker-error'' then
        (case JOBS_QUEUE_send
                \<lparr> j_id = jobId task, j_type = sync_content, j_status = J_pending,
                  j_priority = P_high, j_payload = h_context (issue task),
                  j_retryCount = attempts task, j_maxRetries = 5,
                  j_createdAt = clock e, j_updatedAt = clock e, j_completedAt = None,
                  j_error = None, j_result = None, j_healingAttempts = attempts task \<rparr> e of
           (Inl err, e') \<Rightarrow> (Inl err, e')
         | (Inr _, e') \<Rightarrow> (Inr True, e'))
      else (Inr False, e))"

definition retryWithBackoff :: "HealingTask \<Rightarrow> nat \<Rightarrow> Env \<Rightarrow> (string + bool) \<times> Env" where
  "retryWithBackoff task delayMs e = retryOriginalOperation task (sleep delayMs e)"

definition clearRelatedCache :: "HealingTask \<Rightarrow> Env \<Rightarrow> (string + unit) \<times> Env" where
  "clearRelatedCache task e =
     (let ctx = h_context (issue task) in
      case (if truthy (get_prop ctx ''repoName'') then
              (case REPOS_KV_delete (''repo:'' @ as_string (get_prop ctx ''repoName'')) e of
                 (Inl err, e1) \<Rightarrow> (Inl err, e1)
               | (Inr _, e1) \<Rightarrow>
                   REPOS_KV_delete (''cohesiveness:'' @ as_string (get_prop ctx ''repoName'')) e1)
            else (Inr (), e)) of
        (Inl err, e2) \<Rightarrow> (Inl err, e2)
      | (Inr _, e2) \<Rightarrow>
          (if truthy (get_prop ctx ''jobId'')
           then JOBS_KV_delete (''cache:'' @ as_string (get_prop ctx ''jobId'')) e2
           else (Inr (), e2)))"

text \<open>The source's stand-in for a backup endpoint: a coin flip.\<close>

definition trySwitchEndpoint :: "HealingTask \<Rightarrow> Env \<Rightarrow> (string + bool) \<times> Env" where
  "trySwitchEndpoint task e = (case Math_random e of (r, e') \<Rightarrow> (Inr (r > 1 / 2), e'))"

text \<open>
  \<^verbatim>\<open>(context.batchSize as number) || 10\<close>. The cast is taken at its word: the definition
  covers a \<^verbatim>\<open>batchSize\<close> that is a number or absent. A value of another JSON type, which
  JavaScript would coerce to a number in the division that follows, is read as absent.
\<close>

definition currentBatch :: "bag \<Rightarrow> int" where
  "currentBatch ctx =
     (case get_prop ctx ''batchSize'' of
        Some (JNum n) \<Rightarrow> (if n = 0 then 10 else n)
      | _ \<Rightarrow> 10)"

definition reduceBatchAndRetry ::
  "HealingTask \<Rightarrow> Env \<Rightarrow> (string + bool) \<times> HealingTask \<times> Env" where
  "reduceBatchAndRetry task e =
     (let ctx = h_context (issue task);
          newBatch = max 1 (currentBatch ctx div 2);
          task' = task\<lparr>issue := (issue task)\<lparr>h_context := Map_set ctx ''batchSize'' (JNum newBatch)\<rparr>\<rparr>
      in case retryOriginalOperation task' e of (r, e') \<Rightarrow> (r, task', e'))"

definition notifyAndSkip :: "HealingTask \<Rightarrow> Env \<Rightarrow> (string + unit) \<times> Env" where
  "notifyAndSkip task e =
     HEALING_KV_put (''skipped:'' @ t_id task)
       (JObj [(''task'', HealingTask_json task), (''skippedAt'', JNum (clock e))])
       (Some (7 * 24 * 60 * 60)) e"

definition performFullReset :: "HealingTask \<Rightarrow> Env \<Rightarrow> (string + bool) \<times> Env" where
  "performFullReset task e =
     (let ctx = h_context (issue task) in
      if truthy (get_prop ctx ''repoName'') then
        (case REPOS_KV_delete (''repo:'' @ as_string (get_prop ctx ''repoName'')) e of
           (Inl err, e1) \<Rightarrow> (Inl err, e1)
         | (Inr _, e1) \<Rightarrow>
         (case REPOS_KV_delete (''cohesiveness:'' @ as_string (get_prop ctx ''repoName'')) e1 of
           (Inl err, e2) \<Rightarrow> (Inl err, e2)
         | (Inr _, e2) \<Rightarrow>
         (case randomUUID e2 of (uuid, e3) \<Rightarrow>
         (case SCRAPE_QUEUE_send
                 \<lparr> s_id = uuid, repoFullName = as_string (get_prop ctx ''repoName''),
                   scrapeType = S_full, lastScrapeAt = None, s_etag = None,
                   s_priority = P_critical \<rparr> e3 of
           (Inl err, e4) \<Rightarrow> (Inl err, e4)
         | (Inr _, e4) \<Rightarrow> (Inr True, e4)))))
      else (Inr False, e))"

definition escalateToAgent :: "HealingTask \<Rightarrow> Env \<Rightarrow> (string + unit) \<times> Env" where
  "escalateToAgent task e =
     (case HEALING_KV_put (''escalated:'' @ t_id task)
             (JObj [(''task'', HealingTask_json task), (''escalatedAt'', JNum (clock e)),
                    (''requiresHumanReview'', JBool True)])
             None e of
        (Inl err, e1) \<Rightarrow> (Inl err, e1)
      | (Inr _, e1) \<Rightarrow>
      (case randomUUID e1 of (uuid, e2) \<Rightarrow>
         JOBS_QUEUE_send
           \<lparr> j_id = uuid, j_type = notify, j_status = J_pending, j_priority = P_critical,
             j_payload =
               [(''type'', JStr ''escalation''), (''taskId'', JStr (t_id task)),
                (''issue'', HealingIssue_json (issue task)),
                (''message'', JStr (''Self-healing exhausted all strategies for: ''
                                    @ h_description (issue task)))],
             j_retryCount = 0, j_maxRetries = 1, j_createdAt = clock e2,
             j_updatedAt = clock e2, j_completedAt = None, j_error = None, j_result = None,
             j_healingAttempts = 0 \<rparr> e2))"

text \<open>
  The \<^verbatim>\<open>switch\<close> inside the \<^verbatim>\<open>try\<close> of \<^verbatim>\<open>attemptHealing\<close>. It runs on the task after the
  attempt counter was bumped, and may change the task (its context, its status) and the
  metrics. \<open>Inr (success, message)\<close> is a normal exit, \<open>Inl err\<close> an exception, with the
  task, metrics and environment as they stand where it was thrown.
\<close>

definition executeStrategy ::
  "HealingTask \<Rightarrow> HealingMetrics \<Rightarrow> Env
     \<Rightarrow> (string + bool \<times> string) \<times> HealingTask \<times> HealingMetrics \<times> Env" where
  "executeStrategy task m e =
     (case strategy task of
        retry_with_backoff \<Rightarrow>
          (case retryWithBackoff task
                  (backoff_at (STRATEGY_CONFIGS (strategy task)) (attempts task - 1)) e of
             (Inl err, e') \<Rightarrow> (Inl err, task, m, e')
           | (Inr ok, e') \<Rightarrow>
               (Inr (ok, if ok then ''Retry succeeded'' else ''Retry failed''), task, m, e'))
      | clear_cache_retry \<Rightarrow>
          (case clearRelatedCache task e of
             (Inl err, e1) \<Rightarrow> (Inl err, task, m, e1)
           | (Inr _, e1) \<Rightarrow>
          (case retryOriginalOperation task e1 of
             (Inl err, e2) \<Rightarrow> (Inl err, task, m, e2)
           | (Inr ok, e2) \<Rightarrow>
               (Inr (ok, if ok then ''Cache cleared and retry succeeded''
                         else ''Cache clear did not help''), task, m, e2)))
      | switch_endpoint \<Rightarrow>
          (case trySwitchEndpoint task e of
             (Inl err, e') \<Rightarrow> (Inl err, task, m, e')
           | (Inr ok, e') \<Rightarrow>
               (Inr (ok, if ok then ''Switched to backup endpoint''
                         else ''No backup endpoint available''), task, m, e'))
      | reduce_batch_size \<Rightarrow>
          (case reduceBatchAndRetry task e of
             (Inl err, task', e') \<Rightarrow> (Inl err, task', m, e')
           | (Inr ok, task', e') \<Rightarrow>
               (Inr (ok, if ok then ''Reduced batch size succeeded''
                         else ''Batch reduction did not help''), task', m, e'))
      | notify_and_skip \<Rightarrow>
          (case notifyAndSkip task e of
             (Inl err, e') \<Rightarrow> (Inl err, task, m, e')
           | (Inr _, e') \<Rightarrow> (Inr (True, ''Issue logged and skipped''), task, m, e'))
      | full_reset \<Rightarrow>
          (case performFullReset task e of
             (Inl err, e') \<Rightarrow> (Inl err, task, m, e')
           | (Inr ok, e') \<Rightarrow>
               (Inr (ok, if ok then ''Full reset completed'' else ''Full reset failed''),
                task, m, e'))
      | escalate_to_agent \<Rightarrow>
          (case escalateToAgent task e of
             (Inl err, e') \<Rightarrow> (Inl err, task, m, e')
           | (Inr _, e') \<Rightarrow>
               (Inr (False, ''Escalated to agent for manual resolution''),
                task\<lparr>status := escalated\<rparr>, m\<lparr>escalations := escalations m + 1\<rparr>, e')))"

text \<open>Counting in \<^verbatim>\<open>this.strategies\<close>.\<close>

definition strategy_stat :: "(HealingStrategy \<times> StrategyStat) list \<Rightarrow> HealingStrategy \<Rightarrow> StrategyStat" where
  "strategy_stat ss s =
     (case Map_get ss s of
        Some st \<Rightarrow> st
      | None \<Rightarrow> \<lparr> st_attempts = 0, st_successes = 0, st_failures = 0 \<rparr>)"

text \<open>
  \<^verbatim>\<open>attemptHealing\<close>. The task object is the one \<^verbatim>\<open>processHealingTask\<close> has just put into
  \<^verbatim>\<open>this.tasks\<close>, so every assignment to it shows in the map at once; the model writes
  the task back on both exits. \<open>Inl err\<close> is an exception that leaves the method: the
  only ones are thrown by \<^verbatim>\<open>HEALING_QUEUE.send\<close>, outside the \<^verbatim>\<open>try\<close>.
\<close>

definition attemptHealing ::
  "HealingTask \<Rightarrow> SelfHealer \<Rightarrow> Env \<Rightarrow> (string + HealingResolution) \<times> SelfHealer \<times> Env" where
  "attemptHealing task0 h e =
    (let startTime = clock e;
         task1 = task0\<lparr>status := attempting, attempts := attempts task0 + 1, updatedAt := clock e\<rparr>;
         strategyConfig = STRATEGY_CONFIGS (strategy task1);
         m1 = (metrics h)\<lparr>totalAttempts := totalAttempts (metrics h) + 1\<rparr>;
         used = strategy task1;
         ss0 = Map_set (strategies h) used (strategy_stat (strategies h) used);
         ss1 = Map_set ss0 used
                 ((strategy_stat ss0 used)\<lparr>st_attempts := st_attempts (strategy_stat ss0 used) + 1\<rparr>)
     in case executeStrategy task1 m1 e of (outcome, task2, m2, e1) \<Rightarrow>
    (let (success', message') =
           (case outcome of
              Inr r \<Rightarrow> r
            | Inl err \<Rightarrow> (False, ''Healing error: '' @ err));
         timeToResolve' = clock e1 - startTime
     in
     if success' then
       (let m3 = m2\<lparr>successfulResolutions := successfulResolutions m2 + 1\<rparr>;
            ss2 = Map_set ss1 used
                    ((strategy_stat ss1 used)\<lparr>st_successes := st_successes (strategy_stat ss1 used) + 1\<rparr>);
            task3 = task2\<lparr>status := resolved\<rparr>;
            totalResolved = successfulResolutions m3;
            m4 = m3\<lparr>averageTimeToResolve :=
                   Math_round (to_double
                     (of_int (averageTimeToResolve m3 * (int totalResolved - 1) + timeToResolve')
                      / of_nat totalResolved))\<rparr>;
            resolution' = \<lparr> r_strategy = strategy task3, success = success', message = message',
                            attemptNumber = attempts task3, resolvedAt = clock e1,
                            r_metrics = Some \<lparr> timeToResolve = timeToResolve', resourcesUsed = 1 \<rparr> \<rparr>;
            task4 = task3\<lparr>resolution := Some resolution', updatedAt := clock e1\<rparr>
        in (Inr resolution',
            \<lparr> tasks = Map_set (tasks h) (t_id task4) task4, metrics = m4, strategies = ss2 \<rparr>, e1))
     else
       (let ss2 = Map_set ss1 used
                    ((strategy_stat ss1 used)\<lparr>st_failures := st_failures (strategy_stat ss1 used) + 1\<rparr>)
        in case
          (if attempts task2 \<ge> maxAttempts task2 \<and> nextStrategy strategyConfig \<noteq> None then
             (let next = the (nextStrategy strategyConfig);
                  task3 = task2\<lparr>strategy := next, attempts := 0,
                                 maxAttempts := cfg_maxAttempts (STRATEGY_CONFIGS next),
                                 status := pending\<rparr>
              in case HEALING_QUEUE_send task3 e1 of (sent, e2) \<Rightarrow> (sent, task3, m2, e2))
           else if attempts task2 \<ge> maxAttempts task2 then
             (Inr (), task2\<lparr>status := escalated\<rparr>,
              m2\<lparr>failedResolutions := failedResolutions m2 + 1, escalations := escalations m2 + 1\<rparr>,
              e1)
           else
             (let task3 = task2\<lparr>status := pending\<rparr>
              in case HEALING_QUEUE_send task3 e1 of (sent, e2) \<Rightarrow> (sent, task3, m2, e2)))
        of
          (Inl err, task3, m3, e2) \<Rightarrow>
            (Inl err,
             \<lparr> tasks = Map_set (tasks h) (t_id task3) task3, metrics = m3, strategies = ss2 \<rparr>, e2)
        | (Inr _, task3, m3, e2) \<Rightarrow>
            (let resolution' = \<lparr> r_strategy = strategy task3, success = success', message = message',
                                 attemptNumber = attempts task3, resolvedAt = clock e2,
                                 r_metrics = Some \<lparr> timeToResolve = timeToResolve', resourcesUsed = 1 \<rparr> \<rparr>;
                 task4 = task3\<lparr>resolution := Some resolution', updatedAt := clock e2\<rparr>
             in (Inr resolution',
                 \<lparr> tasks = Map_set (tasks h) (t_id task4) task4, metrics = m3, strategies = ss2 \<rparr>,
                 e2)))))"

text \<open>
  \<^verbatim>\<open>processHealingTask\<close>, behind \<^verbatim>\<open>POST /heal\<close>. It stores the task it is given under the
  task's id, whatever is stored there, and executes it. An exception of
  \<^verbatim>\<open>attemptHealing\<close> leaves the operation and rejects the caller's \<^verbatim>\<open>fetch\<close>.
\<close>

definition processHealingTask ::
  "HealingTask \<Rightarrow> SelfHealer \<Rightarrow> Env \<Rightarrow> (string + Response) \<times> SelfHealer \<times> Env" where
  "processHealingTask task h e =
    (let h1 = h\<lparr>tasks := Map_set (tasks h) (t_id task) task\<rparr> in
     if SELF_HEAL_ENABLED e \<noteq> ''true'' then
       (let task' = task\<lparr>status := escalated, updatedAt := clock e\<rparr>
        in (Inr (json_response 200
              [(''success'', JBool False),
               (''message'', JStr ''Self-healing is disabled, task escalated''),
               (''task'', HealingTask_json task')]),
            h1\<lparr>tasks := Map_set (tasks h1) (t_id task') task'\<rparr>, e))
     else
       (case attemptHealing task h1 e of
          (Inl err, h2, e2) \<Rightarrow> (Inl err, h2, e2)
        | (Inr result, h2, e2) \<Rightarrow>
            (Inr (json_response 200
               ([(''success'', JBool (success result))]
                @ opt_key ''task'' HealingTask_json (Map_get (tasks h2) (t_id task))
                @ [(''resolution'', HealingResolution_json result)])),
             h2, e2)))"

text \<open>\<^verbatim>\<open>resolveTask\<close>, behind \<^verbatim>\<open>POST /resolve\<close>.\<close>

definition resolveTask ::
  "string \<Rightarrow> HealingResolution \<Rightarrow> SelfHealer \<Rightarrow> Env \<Rightarrow> Response \<times> SelfHealer \<times> Env" where
  "resolveTask taskId resolution' h e =
    (case Map_get (tasks h) taskId of
       None \<Rightarrow> (json_response 404 [(''error'', JStr ''Task not found'')], h, e)
     | Some task \<Rightarrow>
         (let task' = task\<lparr>status := resolved, resolution := Some resolution', updatedAt := clock e\<rparr>
          in (json_response 200 [(''success'', JBool True), (''task'', HealingTask_json task')],
              h\<lparr>tasks := Map_set (tasks h) taskId task'\<rparr>, e)))"

text \<open>\<^verbatim>\<open>runHealthCheck\<close>, behind \<^verbatim>\<open>POST /check\<close>. It reads the state and changes nothing.\<close>

definition runHealthCheck :: "SelfHealer \<Rightarrow> Env \<Rightarrow> Response" where
  "runHealthCheck h e =
    (let now = clock e;
         stale = concat (map (\<lambda>(k, task).
                   if status task = pending \<and> now - createdAt task > 30 * 60 * 1000
                   then [(''stale_task'', ''warning'',
                          ''Task '' @ t_id task @ '' has been pending for over 30 minutes'')]
                   else []) (tasks h));
         escalationRate =
           to_double (of_nat (escalations (metrics h)) / of_nat (totalAttempts (metrics h)));
         rate =
           (if totalAttempts (metrics h) > 10 \<and> escalationRate > to_double (3 / 10)
            then [(''high_escalation_rate'', ''critical'',
                   ''Escalation rate is ''
                   @ show_int (Math_round (to_double (escalationRate * 100)))
                   @ ''% - review healing strategies'')]
            else []);
         found = stale @ rate
     in json_response 200
          [(''healthy'', JBool (filter (\<lambda>(ty, sev, msg). sev = ''critical'') found = [])),
           (''issues'', JArr (map (\<lambda>(ty, sev, msg).
               JObj [(''type'', JStr ty), (''severity'', JStr sev), (''message'', JStr msg)]) found)),
           (''timestamp'', JNum now)])"


section \<open>Job coordinator\<close>

record JobMetrics =
  totalCreated :: nat
  totalCompleted :: nat
  totalFailed :: nat
  totalHealing :: nat

record JobCoordinator =
  jobs :: "(string \<times> AgentJob) list"
  job_metrics :: JobMetrics

text \<open>
  \<^verbatim>\<open>Partial<AgentJob>\<close>, the body of \<^verbatim>\<open>PUT /jobs/:id\<close>: every field may be absent.
\<close>

record JobPatch =
  p_id :: "string option"
  p_type :: "JobType option"
  p_status :: "JobStatus option"
  p_priority :: "JobPriority option"
  p_payload :: "bag option"
  p_retryCount :: "nat option"
  p_maxRetries :: "nat option"
  p_createdAt :: "timestamp option"
  p_updatedAt :: "timestamp option"
  p_completedAt :: "timestamp option"
  p_error :: "string option"
  p_result :: "json option"
  p_healingAttempts :: "nat option"

definition no_patch :: JobPatch where
  "no_patch = \<lparr> p_id = None, p_type = None, p_status = None, p_priority = None,
      p_payload = None, p_retryCount = None, p_maxRetries = None, p_createdAt = None,
      p_updatedAt = None, p_completedAt = None, p_error = None, p_result = None,
      p_healingAttempts = None \<rparr>"

definition overwrite :: "'a \<Rightarrow> 'a option \<Rightarrow> 'a" where
  "overwrite old new = (case new of None \<Rightarrow> old | Some v \<Rightarrow> v)"

definition overwrite_opt :: "'a option \<Rightarrow> 'a option \<Rightarrow> 'a option" where
  "overwrite_opt old new = (case new of None \<Rightarrow> old | Some v \<Rightarrow> Some v)"

text \<open>\<^verbatim>\<open>Object.assign(job, updates, { updatedAt: now })\<close>.\<close>

definition assign_job :: "AgentJob \<Rightarrow> JobPatch \<Rightarrow> timestamp \<Rightarrow> AgentJob" where
  "assign_job job u now =
     \<lparr> j_id = overwrite (j_id job) (p_id u),
       j_type = overwrite (j_type job) (p_type u),
       j_status = overwrite (j_status job) (p_status u),
       j_priority = overwrite (j_priority job) (p_priority u),
       j_payload = overwrite (j_payload job) (p_payload u),
       j_retryCount = overwrite (j_retryCount job) (p_retryCount u),
       j_maxRetries = overwrite (j_maxRetries job) (p_maxRetries u),
       j_createdAt = overwrite (j_createdAt job) (p_createdAt u),
       j_updatedAt = now,
       j_completedAt = overwrite_opt (j_completedAt job) (p_completedAt u),
       j_error = overwrite_opt (j_error job) (p_error u),
       j_result = overwrite_opt (j_result job) (p_result u),
       j_healingAttempts = overwrite (j_healingAttempts job) (p_healingAttempts u) \<rparr>"

definition updateJob :: "string \<Rightarrow> JobPatch \<Rightarrow> JobCoordinator \<Rightarrow> Env \<Rightarrow> Response \<times> JobCoordinator" where
  "updateJob ident updates c e =
    (case Map_get (jobs c) ident of
       None \<Rightarrow> (json_response 404 [(''error'', JStr ''Job not found'')], c)
     | Some job \<Rightarrow>
         (let m = job_metrics c;
              (m', job1) =
                (if p_status updates \<noteq> None \<and> p_status updates \<noteq> Some (j_status job) then
                   (if p_status updates = Some J_completed then
                      (m\<lparr>totalCompleted := totalCompleted m + 1\<rparr>,
                       job\<lparr>j_completedAt := Some (clock e)\<rparr>)
                    else if p_status updates = Some J_failed then
                      (m\<lparr>totalFailed := totalFailed m + 1\<rparr>, job)
                    else if p_status updates = Some J_healing then
                      (m\<lparr>totalHealing := totalHealing m + 1\<rparr>, job)
                    else (m, job))
                 else (m, job));
              job2 = assign_job job1 updates (clock e)
          in (json_response 200 [(''success'', JBool True), (''job'', AgentJob_json job2)],
              \<lparr> jobs = Map_set (jobs c) ident job2, job_metrics = m' \<rparr>)))"

text \<open>
  The loop of \<^verbatim>\<open>cleanup\<close> over \<^verbatim>\<open>this.jobs.entries()\<close>: the first argument is what is left
  to visit, the pair is the map and the counter \<^verbatim>\<open>cleaned\<close>.
\<close>

fun cleanup_loop ::
  "(string \<times> AgentJob) list \<Rightarrow> timestamp \<Rightarrow> (string \<times> AgentJob) list \<times> nat
     \<Rightarrow> (string \<times> AgentJob) list \<times> nat" where
  "cleanup_loop [] cutoffTime (js, cleaned) = (js, cleaned)"
| "cleanup_loop ((ident, job) # rest) cutoffTime (js, cleaned) =
     (if j_status job = J_completed \<or> j_status job = J_failed then
        (let completedAt = (case j_completedAt job of Some t \<Rightarrow> t | None \<Rightarrow> j_updatedAt job)
         in if completedAt < cutoffTime
            then cleanup_loop rest cutoffTime (Map_delete js ident, cleaned + 1)
            else cleanup_loop rest cutoffTime (js, cleaned))
      else cleanup_loop rest cutoffTime (js, cleaned))"

definition cleanup :: "JobCoordinator \<Rightarrow> Env \<Rightarrow> Response \<times> JobCoordinator" where
  "cleanup c e =
    (let cutoffTime = clock e - 24 * 60 * 60 * 1000;
         (js, cleaned) = cleanup_loop (jobs c) cutoffTime (jobs c, 0)
     in (json_response 200
           [(''success'', JBool True), (''cleaned'', JNum (int cleaned)),
            (''remaining'', JNum (int (Map_size js)))],
         c\<lparr>jobs := js\<rparr>))"


section \<open>Repo sync engine\<close>

record SyncErrorEntry =
  e_repo :: string
  e_error :: string
  e_timestamp :: timestamp

record RepoSyncEngine =
  repos :: "(string \<times> RepoData) list"
  lastFullSync :: "timestamp option"
  lastCohesivenessCheck :: "timestamp option"
  inProgress :: bool
  errors :: "SyncErrorEntry list"

definition BLACKROAD_REPOS :: "string list" where
  "BLACKROAD_REPOS =
     [''blackroad-prism-console'', ''blackroad-content-scheduler'', ''blackroad-os'',
      ''blackroad-cli'', ''blackroad-sdk'', ''blackroad-studio'', ''blackroad-api'',
      ''blackroad-dashboard'', ''blackroad-docs'']"

text \<open>
  The \<^verbatim>\<open>for\<close> loop of \<^verbatim>\<open>triggerFullSync\<close> over the known repos. It stops at the first
  \<^verbatim>\<open>send\<close> that throws.
\<close>

fun enqueue_known :: "string \<Rightarrow> string list \<Rightarrow> Env \<Rightarrow> (string + unit) \<times> Env" where
  "enqueue_known org [] e = (Inr (), e)"
| "enqueue_known org (repoName # rest) e =
     (case randomUUID e of (uuid, e1) \<Rightarrow>
      (case SCRAPE_QUEUE_send
              \<lparr> s_id = uuid, repoFullName = org @ ''/'' @ repoName, scrapeType = S_full,
                lastScrapeAt = None, s_etag = None, s_priority = P_normal \<rparr> e1 of
         (Inl err, e2) \<Rightarrow> (Inl err, e2)
       | (Inr _, e2) \<Rightarrow> enqueue_known org rest e2))"

text \<open>
  \<^verbatim>\<open>triggerFullSync\<close>, behind \<^verbatim>\<open>POST /sync/full\<close>. The flag \<^verbatim>\<open>inProgress\<close> is set before the
  loop and cleared after it, with no \<^verbatim>\<open>finally\<close>: when a \<^verbatim>\<open>send\<close> throws, the operation is
  left with the flag set.
\<close>

definition triggerFullSync ::
  "RepoSyncEngine \<Rightarrow> Env \<Rightarrow> (string + Response) \<times> RepoSyncEngine \<times> Env" where
  "triggerFullSync g e =
    (if inProgress g then
       (Inr (json_response 409
          [(''success'', JBool False), (''message'', JStr ''Sync already in progress'')]), g, e)
     else
       (let g1 = g\<lparr>inProgress := True\<rparr>;
            org = (if BLACKROAD_ORG e \<noteq> [] then BLACKROAD_ORG e else ''BlackRoad-OS'')
        in case enqueue_known org BLACKROAD_REPOS e of
             (Inl err, e') \<Rightarrow> (Inl err, g1, e')
           | (Inr _, e') \<Rightarrow>
               (let g2 = g1\<lparr>lastFullSync := Some (clock e'), inProgress := False\<rparr>
                in (Inr (json_response 200
                      [(''success'', JBool True), (''message'', JStr ''Full sync triggered''),
                       (''repos'', JNum (int (length BLACKROAD_REPOS))),
                       (''timestamp'', nullable JNum (lastFullSync g2))]),
                    g2, e'))))"

text \<open>
  The first loop of \<^verbatim>\<open>triggerCohesivenessCheck\<close>: score each stored repo, store the score
  on the repo and in the KV. The triple is the repo map, the \<^verbatim>\<open>results\<close> array and the
  environment.
\<close>

fun score_repos ::
  "(string \<times> RepoData) list
     \<Rightarrow> (string \<times> RepoData) list \<times> (string \<times> CohesivenessScore) list \<times> Env
     \<Rightarrow> (string + unit) \<times> (string \<times> RepoData) list \<times> (string \<times> CohesivenessScore) list \<times> Env" where
  "score_repos [] (rs, results, e) = (Inr (), rs, results, e)"
| "score_repos ((repoName, repoData) # rest) (rs, results, e) =
     (let score = calculateCohesiveness repoData (clock e);
          results' = results @ [(repoName, score)];
          rs' = Map_set rs repoName (repoData\<lparr>cohesiveness := score\<rparr>)
      in case REPOS_KV_put (''cohesiveness:'' @ repoName) (CohesivenessScore_json score)
                (Some 3600) e of
           (Inl err, e') \<Rightarrow> (Inl err, rs', results', e')
         | (Inr _, e') \<Rightarrow> score_repos rest (rs', results', e'))"

text \<open>The second loop: one healing task for each repo with a critical auto-fixable issue.\<close>

fun enqueue_critical :: "(string \<times> CohesivenessScore) list \<Rightarrow> Env \<Rightarrow> (string + unit) \<times> Env" where
  "enqueue_critical [] e = (Inr (), e)"
| "enqueue_critical ((repo, score) # rest) e =
     (let criticalIssues = filter (\<lambda>i. severity i = critical \<and> autoFixable i) (issues score)
      in if length criticalIssues > 0 then
           (case randomUUID e of (uuid, e1) \<Rightarrow>
            (case HEALING_QUEUE_send
                    \<lparr> t_id = uuid, jobId = ''cohesiveness-'' @ repo,
                      issue = \<lparr> h_type = ''cohesiveness_issues'', h_severity = H_high,
                                h_description = show_nat (length criticalIssues)
                                  @ '' critical cohesiveness issues in '' @ repo,
                                h_context = [(''issues'', JArr (map CohesivenessIssue_json criticalIssues)),
                                             (''repo'', JStr repo)],
                                originalError = None, stackTrace = None \<rparr>,
                      strategy = escalate_to_agent, attempts = 0, maxAttempts = 3,
                      status = pending, resolution = None,
                      createdAt = clock e1, updatedAt = clock e1 \<rparr> e1 of
               (Inl err, e2) \<Rightarrow> (Inl err, e2)
             | (Inr _, e2) \<Rightarrow> enqueue_critical rest e2))
         else enqueue_critical rest e)"

text \<open>\<^verbatim>\<open>triggerCohesivenessCheck\<close>, behind \<^verbatim>\<open>POST /sync/cohesiveness\<close>.\<close>

definition triggerCohesivenessCheck ::
  "RepoSyncEngine \<Rightarrow> Env \<Rightarrow> (string + Response) \<times> RepoSyncEngine \<times> Env" where
  "triggerCohesivenessCheck g e =
    (case score_repos (repos g) (repos g, [], e) of
       (Inl err, rs, results, e1) \<Rightarrow> (Inl err, g\<lparr>repos := rs\<rparr>, e1)
     | (Inr _, rs, results, e1) \<Rightarrow>
         (let g1 = g\<lparr>repos := rs, lastCohesivenessCheck := Some (clock e1)\<rparr>
          in case enqueue_critical results e1 of
               (Inl err, e2) \<Rightarrow> (Inl err, g1, e2)
             | (Inr _, e2) \<Rightarrow>
                 (Inr (json_response 200
                    [(''success'', JBool True),
                     (''results'', JArr (map (\<lambda>(repo, score).
                         JObj [(''repo'', JStr repo), (''score'', CohesivenessScore_json score)]) results)),
                     (''timestamp'', nullable JNum (lastCohesivenessCheck g1))]),
                  g1, e2)))"

text \<open>\<^verbatim>\<open>syncRepo\<close>, behind \<^verbatim>\<open>POST /sync/repo\<close>.\<close>

definition syncRepo ::
  "string \<Rightarrow> RepoSyncEngine \<Rightarrow> Env \<Rightarrow> (string + Response) \<times> RepoSyncEngine \<times> Env" where
  "syncRepo repoName g e =
    (case randomUUID e of (uuid, e1) \<Rightarrow>
     (case SCRAPE_QUEUE_send
             \<lparr> s_id = uuid, repoFullName = repoName, scrapeType = S_full,
               lastScrapeAt = None, s_etag = None, s_priority = P_high \<rparr> e1 of
        (Inl err, e2) \<Rightarrow> (Inl err, g, e2)
      | (Inr _, e2) \<Rightarrow>
          (Inr (json_response 200
             [(''success'', JBool True), (''message'', JStr (''Sync queued for '' @ repoName))]),
           g, e2)))"

text \<open>
  \<^verbatim>\<open>updateRepo\<close>, the method the source documents as "called by scraper to update repo
  data". No route of \<^verbatim>\<open>fetch\<close> leads to it.
\<close>

definition updateRepo :: "RepoData \<Rightarrow> RepoSyncEngine \<Rightarrow> Env \<Rightarrow> (string + unit) \<times> RepoSyncEngine \<times> Env" where
  "updateRepo repoData g e =
    (let g1 = g\<lparr>repos := Map_set (repos g) (fullName repoData) repoData\<rparr>
     in case REPOS_KV_put (''repo:'' @ fullName repoData) (RepoData_json repoData) None e of
          (r, e1) \<Rightarrow> (r, g1, e1))"


section \<open>Queue processors\<close>

text \<open>
  The three durable objects and the environment they share. A processor reaches an
  object through \<^verbatim>\<open>stub.fetch\<close>, which runs the object's operation on its state and
  rejects when the operation throws.
\<close>

record System =
  coordinator :: JobCoordinator
  syncEngine :: RepoSyncEngine
  healer :: SelfHealer
  env :: Env

datatype Disposition = Ack | Retry

text \<open>
  The job processor addresses a job by the URL \<^verbatim>\<open>http://internal/jobs/${job.id}\<close>, and the
  coordinator's \<^verbatim>\<open>fetch\<close> reads the id back from \<^verbatim>\<open>new URL(request.url).pathname\<close>. What
  follows is the path state of the URL Standard's parser for an \<^verbatim>\<open>http\<close> URL, on bytes:
  trailing C0 controls and spaces are stripped from the input and tabs and newlines
  removed; a slash or a backslash ends a segment, \<^verbatim>\<open>?\<close> and \<^verbatim>\<open>#\<close> end the path; a byte
  of the path percent-encode set is written as \<^verbatim>\<open>%XX\<close>; a single-dot segment is dropped
  and a double-dot segment removes the segment before it.
\<close>

definition c0_control_or_space :: "char \<Rightarrow> bool" where
  "c0_control_or_space c = ((of_char c :: nat) \<le> 32)"

definition ascii_tab_or_newline :: "char \<Rightarrow> bool" where
  "ascii_tab_or_newline c = (c = CHR 0x09 \<or> c = CHR 0x0A \<or> c = CHR 0x0D)"

definition path_percent_encode_set :: "char \<Rightarrow> bool" where
  "path_percent_encode_set c =
     ((of_char c :: nat) < 32 \<or> (of_char c :: nat) > 126
      \<or> c \<in> set [CHR 0x20, CHR 0x22, CHR 0x23, CHR 0x3C, CHR 0x3E, CHR 0x3F, CHR 0x5E,
                   CHR 0x60, CHR 0x7B, CHR 0x7D])"

definition hex_digit :: "nat \<Rightarrow> char" where
  "hex_digit d = ''0123456789ABCDEF'' ! d"

definition percent_encode :: "char \<Rightarrow> string" where
  "percent_encode c =
     (if path_percent_encode_set c
      then [CHR ''%'', hex_digit ((of_char c :: nat) div 16), hex_digit ((of_char c :: nat) mod 16)]
      else [c])"

definition single_dot_segment :: "string \<Rightarrow> bool" where
  "single_dot_segment buf = (toLowerCase buf \<in> set [''.'', ''%2e''])"

definition double_dot_segment :: "string \<Rightarrow> bool" where
  "double_dot_segment buf = (toLowerCase buf \<in> set [''..'', ''.%2e'', ''%2e.'', ''%2e%2e''])"

text \<open>
  The end of a segment: \<open>slash\<close> tells whether a slash or backslash ended it (more of
  the path follows) or the path ends here.
\<close>

definition end_segment :: "bool \<Rightarrow> string list \<Rightarrow> string \<Rightarrow> string list" where
  "end_segment slash path buf =
     (if double_dot_segment buf then (if slash then butlast path else butlast path @ [[]])
      else if single_dot_segment buf then (if slash then path else path @ [[]])
      else path @ [buf])"

fun path_state :: "string \<Rightarrow> string list \<Rightarrow> string \<Rightarrow> string list" where
  "path_state [] path buf = end_segment False path buf"
| "path_state (c # cs) path buf =
     (if c = CHR ''/'' \<or> c = CHR 0x5C then path_state cs (end_segment True path buf) []
      else if c = CHR ''?'' \<or> c = CHR ''#'' then end_segment False path buf
      else path_state cs path (buf @ percent_encode c))"

text \<open>The \<^verbatim>\<open>pathname\<close> of \<^verbatim>\<open>http://internal/jobs/${id}\<close>.\<close>

definition job_url_pathname :: "string \<Rightarrow> string" where
  "job_url_pathname ident =
     (let input = filter (\<lambda>c. \<not> ascii_tab_or_newline c)
                    (rev (dropWhile c0_control_or_space (rev ident)))
      in concat (map (\<lambda>seg. CHR ''/'' # seg) (path_state (''jobs/'' @ input) [] [])))"

text \<open>
  The coordinator's route for one job, the regular expression \<^verbatim>\<open>^/jobs/([^/]+)$\<close> (its
  slashes escaped in the source): the captured id, if the path matches.
\<close>

definition jobs_route :: "string \<Rightarrow> string option" where
  "jobs_route path =
     (if take 6 path = ''/jobs/'' \<and> drop 6 path \<noteq> [] \<and> CHR ''/'' \<notin> set (drop 6 path)
      then Some (drop 6 path) else None)"

text \<open>
  \<^verbatim>\<open>coordinator.fetch(new Request(`http://internal/jobs/${job.id}`, { method: 'PUT', ... }))\<close>
  as the processor uses it: \<^verbatim>\<open>updateJob\<close> runs on the id the route captures; a path the
  route does not match is answered 404 by \<^verbatim>\<open>fetch\<close>. The processor does not read the
  response.
\<close>

definition coordinator_put :: "string \<Rightarrow> JobPatch \<Rightarrow> System \<Rightarrow> System" where
  "coordinator_put ident updates sys =
     (case jobs_route (job_url_pathname ident) of
        None \<Rightarrow> sys
      | Some captured \<Rightarrow>
          (case updateJob captured updates (coordinator sys) (env sys) of
             (resp, c') \<Rightarrow> sys\<lparr>coordinator := c'\<rparr>))"

definition handleScrapeRepoJob :: "AgentJob \<Rightarrow> System \<Rightarrow> (string + json) \<times> System" where
  "handleScrapeRepoJob job sys =
    (let repoName = get_prop (j_payload job) ''repoName'' in
     if \<not> truthy repoName then (Inl ''Missing repoName in payload'', sys)
     else
       (case randomUUID (env sys) of (uuid, e1) \<Rightarrow>
        (case SCRAPE_QUEUE_send
                \<lparr> s_id = uuid, repoFullName = as_string repoName,
                  scrapeType = (if truthy (get_prop (j_payload job) ''force'')
                                then S_full else S_incremental),
                  lastScrapeAt = None, s_etag = None, s_priority = j_priority job \<rparr> e1 of
           (Inl err, e2) \<Rightarrow> (Inl err, sys\<lparr>env := e2\<rparr>)
         | (Inr _, e2) \<Rightarrow>
             (Inr (JObj [(''queued'', JBool True), (''repo'', the repoName)]),
              sys\<lparr>env := e2\<rparr>))))"

definition handleSyncContentJob :: "AgentJob \<Rightarrow> System \<Rightarrow> (string + json) \<times> System" where
  "handleSyncContentJob job sys =
    (case triggerFullSync (syncEngine sys) (env sys) of
       (Inl err, g', e') \<Rightarrow> (Inl err, sys\<lparr>syncEngine := g', env := e'\<rparr>)
     | (Inr resp, g', e') \<Rightarrow> (Inr (body resp), sys\<lparr>syncEngine := g', env := e'\<rparr>))"

definition handleCohesivenessJob :: "AgentJob \<Rightarrow> System \<Rightarrow> (string + json) \<times> System" where
  "handleCohesivenessJob job sys =
    (case triggerCohesivenessCheck (syncEngine sys) (env sys) of
       (Inl err, g', e') \<Rightarrow> (Inl err, sys\<lparr>syncEngine := g', env := e'\<rparr>)
     | (Inr resp, g', e') \<Rightarrow> (Inr (body resp), sys\<lparr>syncEngine := g', env := e'\<rparr>))"

definition handleSelfHealJob :: "AgentJob \<Rightarrow> System \<Rightarrow> (string + json) \<times> System" where
  "handleSelfHealJob job sys = (Inr (body (runHealthCheck (healer sys) (env sys))), sys)"

text \<open>
  The loop of \<^verbatim>\<open>handleUpdateCacheJob\<close> over \<^verbatim>\<open>payload.targetRepos\<close>, with the \<^verbatim>\<open>results\<close>
  array built so far.
\<close>

fun refresh_targets :: "json list \<Rightarrow> json list \<Rightarrow> Env \<Rightarrow> (string + json list) \<times> Env" where
  "refresh_targets [] results e = (Inr results, e)"
| "refresh_targets (repo # rest) results e =
     (case randomUUID e of (uuid, e1) \<Rightarrow>
      (case SCRAPE_QUEUE_send
              \<lparr> s_id = uuid, repoFullName = as_string (Some repo), scrapeType = S_metadata,
                lastScrapeAt = None, s_etag = None, s_priority = P_normal \<rparr> e1 of
         (Inl err, e2) \<Rightarrow> (Inl err, e2)
       | (Inr _, e2) \<Rightarrow>
           refresh_targets rest
             (results @ [JObj [(''repo'', repo), (''updated'', JBool True)]]) e2))"

definition handleUpdateCacheJob :: "AgentJob \<Rightarrow> System \<Rightarrow> (string + json) \<times> System" where
  "handleUpdateCacheJob job sys =
    (let targetRepos =
           (case get_prop (j_payload job) ''targetRepos'' of
              Some (JArr xs) \<Rightarrow> xs
            | _ \<Rightarrow> [])
     in case refresh_targets targetRepos [] (env sys) of
          (Inl err, e') \<Rightarrow> (Inl err, sys\<lparr>env := e'\<rparr>)
        | (Inr results, e') \<Rightarrow> (Inr (JObj [(''results'', JArr results)]), sys\<lparr>env := e'\<rparr>))"

definition handleFullSyncJob :: "AgentJob \<Rightarrow> System \<Rightarrow> (string + json) \<times> System" where
  "handleFullSyncJob job sys =
    (case triggerFullSync (syncEngine sys) (env sys) of
       (Inl err, g', e') \<Rightarrow> (Inl err, sys\<lparr>syncEngine := g', env := e'\<rparr>)
     | (Inr resp, g', e') \<Rightarrow> (Inr (body resp), sys\<lparr>syncEngine := g', env := e'\<rparr>))"

definition handleCleanupJob :: "AgentJob \<Rightarrow> System \<Rightarrow> (string + json) \<times> System" where
  "handleCleanupJob job sys =
    (case cleanup (coordinator sys) (env sys) of
       (resp, c') \<Rightarrow> (Inr (body resp), sys\<lparr>coordinator := c'\<rparr>))"

definition handleNotifyJob :: "AgentJob \<Rightarrow> System \<Rightarrow> (string + json) \<times> System" where
  "handleNotifyJob job sys =
     (Inr (JObj [(''notified'', JBool True), (''payload'', JObj (j_payload job))]), sys)"

text \<open>The \<^verbatim>\<open>switch (job.type)\<close> of \<^verbatim>\<open>processJobQueue\<close>.\<close>

fun dispatch :: "AgentJob \<Rightarrow> System \<Rightarrow> (string + json) \<times> System" where
  "dispatch job sys =
     (case j_type job of
        scrape_repo \<Rightarrow> handleScrapeRepoJob job sys
      | sync_content \<Rightarrow> handleSyncContentJob job sys
      | check_cohesiveness \<Rightarrow> handleCohesivenessJob job sys
      | self_heal \<Rightarrow> handleSelfHealJob job sys
      | update_cache \<Rightarrow> handleUpdateCacheJob job sys
      | full_sync \<Rightarrow> handleFullSyncJob job sys
      | cleanup_job \<Rightarrow> handleCleanupJob job sys
      | notify \<Rightarrow> handleNotifyJob job sys)"

text \<open>
  The \<^verbatim>\<open>try\<close> block of \<^verbatim>\<open>processJobQueue\<close> up to the handler's return: the job is marked
  running, then dispatched. \<open>Inl err\<close> is the handler's exception, its own or the
  rejection of the \<^verbatim>\<open>fetch\<close> it awaits.
\<close>

definition run_handler :: "AgentJob \<Rightarrow> System \<Rightarrow> (string + json) \<times> System" where
  "run_handler job sys =
     dispatch job (coordinator_put (j_id job) (no_patch\<lparr>p_status := Some J_running\<rparr>) sys)"

text \<open>
  The body of the \<^verbatim>\<open>for\<close> loop of \<^verbatim>\<open>processJobQueue\<close> for one message. The counts compared
  and written are those of the message body \<^verbatim>\<open>job\<close>, not of the stored job. \<open>Inl err\<close> is
  an exception that leaves the processor: the \<^verbatim>\<open>catch\<close> block's own send can throw.
\<close>

definition processJobMessage :: "AgentJob \<Rightarrow> System \<Rightarrow> (string + Disposition) \<times> System" where
  "processJobMessage job sys =
    (case run_handler job sys of
       (Inr result, sys1) \<Rightarrow>
         (Inr Ack,
          coordinator_put (j_id job)
            (no_patch\<lparr>p_status := Some J_completed, p_result := Some result,
                       p_completedAt := Some (clock (env sys1))\<rparr>) sys1)
     | (Inl errorMessage, sys1) \<Rightarrow>
         (if j_retryCount job < j_maxRetries job then
            (Inr Retry,
             coordinator_put (j_id job)
               (no_patch\<lparr>p_status := Some J_pending, p_retryCount := Some (j_retryCount job + 1),
                          p_error := Some errorMessage\<rparr>) sys1)
          else
            (let sys2 = coordinator_put (j_id job)
                          (no_patch\<lparr>p_status := Some J_healing, p_error := Some errorMessage\<rparr>) sys1
             in case randomUUID (env sys2) of (uuid, e1) \<Rightarrow>
                (case HEALING_QUEUE_send
                        \<lparr> t_id = uuid, jobId = j_id job,
                          issue = \<lparr> h_type = ''job_failure'', h_severity = H_high,
                                    h_description = ''Job '' @ JobType_name (j_type job)
                                      @ '' failed after '' @ show_nat (j_maxRetries job)
                                      @ '' retries'',
                                    h_context = [(''jobId'', JStr (j_id job)),
                                                 (''jobType'', JStr (JobType_name (j_type job))),
                                                 (''payload'', JObj (j_payload job))],
                                    originalError = Some errorMessage, stackTrace = None \<rparr>,
                          strategy = retry_with_backoff, attempts = 0, maxAttempts = 5,
                          status = pending, resolution = None,
                          createdAt = clock e1, updatedAt = clock e1 \<rparr> e1 of
                   (Inl err, e2) \<Rightarrow> (Inl err, sys2\<lparr>env := e2\<rparr>)
                 | (Inr _, e2) \<Rightarrow> (Inr Ack, sys2\<lparr>env := e2\<rparr>)))))"

fun processJobQueue :: "AgentJob list \<Rightarrow> System \<Rightarrow> (string + Disposition list) \<times> System" where
  "processJobQueue [] sys = (Inr [], sys)"
| "processJobQueue (job # rest) sys =
     (case processJobMessage job sys of
        (Inl err, sys1) \<Rightarrow> (Inl err, sys1)
      | (Inr d, sys1) \<Rightarrow>
          (case processJobQueue rest sys1 of
             (Inl err, sys2) \<Rightarrow> (Inl err, sys2)
           | (Inr ds, sys2) \<Rightarrow> (Inr (d # ds), sys2)))"

text \<open>
  \<^verbatim>\<open>processScrapeQueue\<close> for one message. \<^verbatim>\<open>GitHubScraper.scrapeRepo\<close> talks to the remote
  host; its outcome is the parameter \<open>scrapeRepo\<close>: \<open>Inl err\<close> when it throws,
  \<open>Inr None\<close> on an ETag match, \<open>Inr (Some data)\<close> otherwise. A rejected
  \<^verbatim>\<open>POST /sync/repo\<close> lands in the \<^verbatim>\<open>catch\<close> like a failed scrape, before the KV write.
\<close>

type_synonym scraper = "string \<Rightarrow> ScrapeType \<Rightarrow> string option \<Rightarrow> Env \<Rightarrow> string + RepoData option"

definition processScrapeMessage ::
  "scraper \<Rightarrow> ScrapeTask \<Rightarrow> System \<Rightarrow> (string + Disposition) \<times> System" where
  "processScrapeMessage scrapeRepo task sys =
    (case
       (case scrapeRepo (repoFullName task) (scrapeType task) (s_etag task) (env sys) of
          Inl err \<Rightarrow> (Inl err, sys)
        | Inr None \<Rightarrow> (Inr (), sys)
        | Inr (Some repoData) \<Rightarrow>
            (case syncRepo (repoFullName task) (syncEngine sys) (env sys) of
               (Inl err, g1, e1) \<Rightarrow> (Inl err, sys\<lparr>syncEngine := g1, env := e1\<rparr>)
             | (Inr resp, g1, e1) \<Rightarrow>
            (case REPOS_KV_put (''repo:'' @ repoFullName task) (RepoData_json repoData)
                    (Some 3600) e1 of
               (r, e2) \<Rightarrow> (r, sys\<lparr>syncEngine := g1, env := e2\<rparr>))))
     of
       (Inr _, sys1) \<Rightarrow> (Inr Ack, sys1)
     | (Inl err, sys1) \<Rightarrow>
         (case randomUUID (env sys1) of (uuid, e1) \<Rightarrow>
          (case HEALING_QUEUE_send
                  \<lparr> t_id = uuid, jobId = ''scrape-'' @ s_id task,
                    issue = \<lparr> h_type = ''scrape_failure'', h_severity = H_medium,
                              h_description = ''Failed to scrape '' @ repoFullName task,
                              h_context = [(''task'', ScrapeTask_json task),
                                           (''repoName'', JStr (repoFullName task))],
                              originalError = Some err, stackTrace = None \<rparr>,
                    strategy = retry_with_backoff, attempts = 0, maxAttempts = 3,
                    status = pending, resolution = None,
                    createdAt = clock e1, updatedAt = clock e1 \<rparr> e1 of
             (Inl err', e2) \<Rightarrow> (Inl err', sys1\<lparr>env := e2\<rparr>)
           | (Inr _, e2) \<Rightarrow> (Inr Retry, sys1\<lparr>env := e2\<rparr>))))"

fun processScrapeQueue ::
  "scraper \<Rightarrow> ScrapeTask list \<Rightarrow> System \<Rightarrow> (string + Disposition list) \<times> System" where
  "processScrapeQueue scrapeRepo [] sys = (Inr [], sys)"
| "processScrapeQueue scrapeRepo (task # rest) sys =
     (case processScrapeMessage scrapeRepo task sys of
        (Inl err, sys1) \<Rightarrow> (Inl err, sys1)
      | (Inr d, sys1) \<Rightarrow>
          (case processScrapeQueue scrapeRepo rest sys1 of
             (Inl err, sys2) \<Rightarrow> (Inl err, sys2)
           | (Inr ds, sys2) \<Rightarrow> (Inr (d # ds), sys2)))"

text \<open>
  \<^verbatim>\<open>processHealingQueue\<close> for one message, and the loop over the batch. The message is
  redelivered unless the healer answers \<open>success\<close>: after a failed attempt, and in the
  \<^verbatim>\<open>catch\<close> when the healer's \<^verbatim>\<open>fetch\<close> rejects.
\<close>

definition processHealingMessage :: "HealingTask \<Rightarrow> System \<Rightarrow> Disposition \<times> System" where
  "processHealingMessage task sys =
    (case processHealingTask task (healer sys) (env sys) of
       (Inl err, h', e') \<Rightarrow> (Retry, sys\<lparr>healer := h', env := e'\<rparr>)
     | (Inr resp, h', e') \<Rightarrow>
         ((case body resp of
             JObj b \<Rightarrow> (if truthy (get_prop b ''success'') then Ack else Retry)
           | _ \<Rightarrow> Retry),
          sys\<lparr>healer := h', env := e'\<rparr>))"

fun processHealingQueue :: "HealingTask list \<Rightarrow> System \<Rightarrow> Disposition list \<times> System" where
  "processHealingQueue [] sys = ([], sys)"
| "processHealingQueue (task # rest) sys =
     (case processHealingMessage task sys of
        (d, sys1) \<Rightarrow>
          (case processHealingQueue rest sys1 of (ds, sys2) \<Rightarrow> (d # ds, sys2)))"


section \<open>Notions of the specification\<close>



text \<open>
  The specification's escalation graph, edge by edge, and what it is for a list of
  strategies to be a path in it.
\<close>

definition escalation_graph :: "(HealingStrategy \<times> HealingStrategy) list" where
  "escalation_graph =
     [(retry_with_backoff, clear_cache_retry), (clear_cache_retry, switch_endpoint),
      (switch_endpoint, reduce_batch_size), (reduce_batch_size, notify_and_skip),
      (notify_and_skip, escalate_to_agent), (full_reset, escalate_to_agent)]"

fun is_path :: "HealingStrategy list \<Rightarrow> bool" where
  "is_path [] = True"
| "is_path [s] = True"
| "is_path (s # s' # rest) = ((s, s') \<in> set escalation_graph \<and> is_path (s' # rest))"

text \<open>
  The task as one execution of \<^verbatim>\<open>attemptHealing\<close> leaves it in \<^verbatim>\<open>this.tasks\<close>, and the
  history of a task that is executed again and again, each time in whatever state the
  healer and the environment are in by then.
\<close>

definition healed :: "HealingTask \<Rightarrow> SelfHealer \<Rightarrow> Env \<Rightarrow> HealingTask" where
  "healed t h e =
     (case attemptHealing t h e of
        (r, h', e') \<Rightarrow> (case Map_get (tasks h') (t_id t) of Some t' \<Rightarrow> t' | None \<Rightarrow> t))"

fun run_history :: "HealingTask \<Rightarrow> (SelfHealer \<times> Env) list \<Rightarrow> HealingTask list" where
  "run_history t [] = [t]"
| "run_history t ((h, e) # rest) = t # run_history (healed t h e) rest"

text \<open>
  The history of a task id in the healer: copies of the task are delivered to
  \<^verbatim>\<open>processHealingTask\<close> one after the other, and after each delivery the healer stores
  some task under the id.
\<close>

fun stored_history ::
  "string \<Rightarrow> HealingTask list \<Rightarrow> SelfHealer \<Rightarrow> Env \<Rightarrow> HealingTask option list" where
  "stored_history ident [] h e = []"
| "stored_history ident (t # ts) h e =
     (case processHealingTask t h e of
        (r, h', e') \<Rightarrow> Map_get (tasks h') ident # stored_history ident ts h' e')"

text \<open>
  An execution failed when its resolution says so, or when it threw before there was a
  resolution.
\<close>

definition failed_execution :: "string + HealingResolution \<Rightarrow> bool" where
  "failed_execution r = (case r of Inl err \<Rightarrow> True | Inr res \<Rightarrow> \<not> success res)"



text \<open>Results of a cohesiveness pass none of which has a critical auto-fixable issue.\<close>

definition calm :: "(string \<times> CohesivenessScore) list \<Rightarrow> bool" where
  "calm results =
     list_all (\<lambda>r. filter (\<lambda>i. severity i = critical \<and> autoFixable i) (issues (snd r)) = [])
       results"


section \<open>Concrete inputs\<close>

text \<open>
  Scenario S2 of the specification: a repository with none of the three configuration
  files, ten files, no README and no \<^verbatim>\<open>src/\<close> directory.
\<close>

definition S2_structure :: RepoStructure where
  "S2_structure =
     \<lparr> files = map (\<lambda>p. \<lparr> f_path = p, f_type = F_file, f_size = None, f_sha = None \<rparr>)
         [''index.ts'', ''app.ts'', ''db.ts'', ''api.ts'', ''util.ts'',
          ''types.ts'', ''queue.ts'', ''cron.ts'', ''log.ts'', ''LICENSE''],
       directories = [], configFiles = [],
       hasPackageJson = False, hasWranglerConfig = False, hasTsConfig = False,
       primaryLanguage = None \<rparr>"

definition S2_repo :: RepoData where
  "S2_repo = \<lparr> fullName = ''acme/foo'', r_name = ''foo'', description = None,
     defaultBranch = ''main'', language = None, topics = [], visibility = ''public'',
     r_structure = S2_structure, lastScrapedAt = 0, r_etag = None,
     cohesiveness = calculateInitialCohesiveness S2_structure 0 \<rparr>"

text \<open>
  An environment in which every binding works: empty stores and queues, the default
  organisation, self-healing enabled.
\<close>

definition env0 :: Env where
  "env0 = \<lparr> JOBS_KV = Map.empty, REPOS_KV = Map.empty, HEALING_KV = Map.empty,
     JOBS_QUEUE = [], SCRAPE_QUEUE = [], HEALING_QUEUE = [],
     BLACKROAD_ORG = [], SELF_HEAL_ENABLED = ''true'',
     fault = (\<lambda>b. None), clock = 200000000,
     uuids = (\<lambda>n. ''uuid-'' @ show_nat n), uuid_count = 0,
     randoms = (\<lambda>n. 0), random_count = 0 \<rparr>"


definition healing_kv_down :: Env where
  "healing_kv_down =
     env0\<lparr>fault := (\<lambda>b. if b = B_HEALING_KV then Some ''KV put failed'' else None)\<rparr>"

definition healer0 :: SelfHealer where
  "healer0 = \<lparr> tasks = [],
     metrics = \<lparr> totalAttempts = 0, successfulResolutions = 0, failedResolutions = 0,
                 escalations = 0, averageTimeToResolve = 0 \<rparr>,
     strategies = [] \<rparr>"

definition example_issue :: HealingIssue where
  "example_issue = \<lparr> h_type = ''worker_error'', h_severity = H_high,
     h_description = ''upstream unavailable'', h_context = [],
     originalError = None, stackTrace = None \<rparr>"

definition example_task :: "HealingStrategy \<Rightarrow> nat \<Rightarrow> nat \<Rightarrow> HealingStatus \<Rightarrow> HealingTask" where
  "example_task s n k st =
     \<lparr> t_id = ''t1'', jobId = ''worker-error'', issue = example_issue,
       strategy = s, attempts = n, maxAttempts = k, status = st, resolution = None,
       createdAt = 0, updatedAt = 0 \<rparr>"

definition example_resolution :: HealingResolution where
  "example_resolution = \<lparr> r_strategy = escalate_to_agent, success = True,
     message = ''fixed by hand'', attemptNumber = 1, resolvedAt = 200000000,
     r_metrics = None \<rparr>"

text \<open>
  Two copies of task \<^verbatim>\<open>t1\<close> on the healing queue: the message the queue redelivers after
  a failed fourth attempt, and the copy the healer itself enqueued during that attempt.
\<close>

definition stale_copy :: HealingTask where
  "stale_copy = example_task retry_with_backoff 3 5 pending"

definition fresh_copy :: HealingTask where
  "fresh_copy = (example_task retry_with_backoff 4 5 pending)\<lparr>updatedAt := 200000000\<rparr>"

text \<open>The healer after it has run an \<^verbatim>\<open>escalate_to_agent\<close> task to exhaustion.\<close>

definition escalated_healer :: SelfHealer where
  "escalated_healer =
     fst (snd (attemptHealing (example_task escalate_to_agent 0 1 pending) healer0 env0))"



definition engine0 :: RepoSyncEngine where
  "engine0 = \<lparr> repos = [], lastFullSync = None, lastCohesivenessCheck = None,
     inProgress = False, errors = [] \<rparr>"


definition system0 :: System where
  "system0 = \<lparr> coordinator = \<lparr> jobs = [], job_metrics = \<lparr> totalCreated = 0,
                   totalCompleted = 0, totalFailed = 0, totalHealing = 0 \<rparr> \<rparr>,
                 syncEngine = engine0, healer = healer0, env = env0 \<rparr>"



text \<open>
  Scenario S1: a full scrape of \<^verbatim>\<open>acme/foo\<close> for which the scraper returns repo data with
  all three configuration files present.
\<close>

definition S1_structure :: RepoStructure where
  "S1_structure =
     \<lparr> files = map (\<lambda>p. \<lparr> f_path = p, f_type = F_file, f_size = None, f_sha = None \<rparr>)
         [''README.md'', ''package.json'', ''tsconfig.json'', ''wrangler.toml'',
          ''src/index.ts''],
       directories = [''src''],
       configFiles = [\<lparr> c_path = ''package.json'', c_type = C_package_json \<rparr>,
                      \<lparr> c_path = ''tsconfig.json'', c_type = C_tsconfig_json \<rparr>,
                      \<lparr> c_path = ''wrangler.toml'', c_type = C_wrangler_toml \<rparr>],
       hasPackageJson = True, hasWranglerConfig = True, hasTsConfig = True,
       primaryLanguage = Some ''TypeScript'' \<rparr>"

definition S1_repo :: RepoData where
  "S1_repo = \<lparr> fullName = ''acme/foo'', r_name = ''foo'', description = None,
     defaultBranch = ''main'', language = Some ''TypeScript'', topics = [],
     visibility = ''public'', r_structure = S1_structure, lastScrapedAt = 200000000,
     r_etag = None, cohesiveness = calculateInitialCohesiveness S1_structure 200000000 \<rparr>"

definition S1_task :: ScrapeTask where
  "S1_task = \<lparr> s_id = ''scrape-1'', repoFullName = ''acme/foo'', scrapeType = S_full,
     lastScrapeAt = None, s_etag = None, s_priority = P_normal \<rparr>"

definition S1_scraper :: scraper where
  "S1_scraper name ty etag e = Inr (Some S1_repo)"





section \<open>Properties of the cohesiveness scorer\<close>

text \<open>Rounding a quarter: \<^verbatim>\<open>Math.round(n / 4)\<close> in integer arithmetic.\<close>

lemma Math_round_quarter: "Math_round (of_int n / 4) = (n + 2) div 4"
proof -
  have "(of_int n :: rat) / 4 + 1 / 2 = of_int (n + 2) / of_int 4"
    by (simp add: field_simps)
  then have "Math_round (of_int n / 4) = \<lfloor>(of_int (n + 2) :: rat) / of_int 4\<rfloor>"
    by (simp only: Math_round_def)
  also have "\<dots> = (n + 2) div 4"
    by (rule floor_divide_of_int_eq)
  finally show ?thesis .
qed

lemma calculateCohesiveness_overall:
  "overall (calculateCohesiveness repo now) =
     Math_round (of_int (structureScore (calculateCohesiveness repo now)
                         + naming (calculateCohesiveness repo now)
                         + dependencies (calculateCohesiveness repo now)
                         + config (calculateCohesiveness repo now)) / 4)"
  by (cases "hasPackageJson (r_structure repo)"; cases "hasTsConfig (r_structure repo)";
      cases "hasWranglerConfig (r_structure repo)";
      simp add: calculateCohesiveness_def Let_def)

lemma calculateInitialCohesiveness_overall:
  "overall (calculateInitialCohesiveness st now) =
     Math_round (of_int (structureScore (calculateInitialCohesiveness st now)
                         + naming (calculateInitialCohesiveness st now)
                         + dependencies (calculateInitialCohesiveness st now)
                         + config (calculateInitialCohesiveness st now)) / 4)"
  by (simp add: calculateInitialCohesiveness_def Let_def)

text \<open>
  C4. Every score the system produces, by the sync engine's check
  (\<open>calculateCohesiveness\<close>) or by the scraper's first computation
  (\<open>calculateInitialCohesiveness\<close>), has as \<open>overall\<close> the rounded mean of its four
  sub-scores as they stand after all penalties.
\<close>

theorem overall_is_rounded_mean:
  "overall (calculateCohesiveness repo now) =
     Math_round (of_int (structureScore (calculateCohesiveness repo now)
                         + naming (calculateCohesiveness repo now)
                         + dependencies (calculateCohesiveness repo now)
                         + config (calculateCohesiveness repo now)) / 4)
   \<and> overall (calculateInitialCohesiveness st now) =
     Math_round (of_int (structureScore (calculateInitialCohesiveness st now)
                         + naming (calculateInitialCohesiveness st now)
                         + dependencies (calculateInitialCohesiveness st now)
                         + config (calculateInitialCohesiveness st now)) / 4)"
  using calculateCohesiveness_overall calculateInitialCohesiveness_overall
  by (rule conjI)

text \<open>
  C2, as the code has it. For a repository with none of the three configuration files,
  ten files, no README and no \<^verbatim>\<open>src/\<close> directory the scorer takes 20 and 10 off the
  structure score, which is 70 (not 60), and 30, 20 and 25 off the config score, which
  is 25; \<open>overall\<close> is \<open>round((70 + 100 + 100 + 25) / 4) = 74\<close>. It emits exactly five
  issues, exactly four of them auto-fixable, none critical.
\<close>

theorem missing_configs_score:
  assumes "\<not> hasPackageJson (r_structure repo)"
      and "\<not> hasTsConfig (r_structure repo)"
      and "\<not> hasWranglerConfig (r_structure repo)"
      and "length (files (r_structure repo)) = 10"
      and "\<not> list_ex (\<lambda>f. toLowerCase (f_path f) = ''readme.md'') (files (r_structure repo))"
      and "\<not> list_ex (\<lambda>d. d = ''src'' \<or> startsWith d ''src/'') (directories (r_structure repo))"
  shows "structureScore (calculateCohesiveness repo now) = 70
       \<and> naming (calculateCohesiveness repo now) = 100
       \<and> dependencies (calculateCohesiveness repo now) = 100
       \<and> config (calculateCohesiveness repo now) = 25
       \<and> overall (calculateCohesiveness repo now) = Math_round ((70 + 100 + 100 + 25) / 4)
       \<and> overall (calculateCohesiveness repo now) = 74
       \<and> length (issues (calculateCohesiveness repo now)) = 5
       \<and> length (filter autoFixable (issues (calculateCohesiveness repo now))) = 4
       \<and> filter (\<lambda>i. severity i = critical) (issues (calculateCohesiveness repo now)) = []"
  using assms Math_round_quarter[of 295]
  by (simp add: calculateCohesiveness_def Let_def)

theorem missing_configs_score_witness:
  "structureScore (calculateCohesiveness S2_repo 0) = 70
       \<and> naming (calculateCohesiveness S2_repo 0) = 100
       \<and> dependencies (calculateCohesiveness S2_repo 0) = 100
       \<and> config (calculateCohesiveness S2_repo 0) = 25
       \<and> overall (calculateCohesiveness S2_repo 0) = Math_round ((70 + 100 + 100 + 25) / 4)
       \<and> overall (calculateCohesiveness S2_repo 0) = 74
       \<and> length (issues (calculateCohesiveness S2_repo 0)) = 5
       \<and> length (filter autoFixable (issues (calculateCohesiveness S2_repo 0))) = 4
       \<and> filter (\<lambda>i. severity i = critical) (issues (calculateCohesiveness S2_repo 0)) = []"
proof (rule missing_configs_score)
  show "\<not> hasPackageJson (r_structure S2_repo)"
    by (simp add: S2_repo_def S2_structure_def)
  show "\<not> hasTsConfig (r_structure S2_repo)"
    by (simp add: S2_repo_def S2_structure_def)
  show "\<not> hasWranglerConfig (r_structure S2_repo)"
    by (simp add: S2_repo_def S2_structure_def)
  show "length (files (r_structure S2_repo)) = 10"
    by (simp add: S2_repo_def S2_structure_def)
  show "\<not> list_ex (\<lambda>f. toLowerCase (f_path f) = ''readme.md'') (files (r_structure S2_repo))"
    by (simp add: S2_repo_def S2_structure_def toLowerCase_def lower_char_def)
  show "\<not> list_ex (\<lambda>d. d = ''src'' \<or> startsWith d ''src/'') (directories (r_structure S2_repo))"
    by (simp add: S2_repo_def S2_structure_def)
qed

text \<open>
  C2 as stated fails: on the repository of scenario S2 the overall score is not 71.
\<close>

theorem missing_configs_overall_counterexample:
  "\<not> hasPackageJson (r_structure S2_repo) \<and> \<not> hasTsConfig (r_structure S2_repo)
   \<and> \<not> hasWranglerConfig (r_structure S2_repo)
   \<and> length (files (r_structure S2_repo)) = 10
   \<and> \<not> list_ex (\<lambda>f. toLowerCase (f_path f) = ''readme.md'') (files (r_structure S2_repo))
   \<and> \<not> list_ex (\<lambda>d. d = ''src'' \<or> startsWith d ''src/'') (directories (r_structure S2_repo))
   \<and> overall (calculateCohesiveness S2_repo 0) \<noteq> 71"
proof -
  have shape: "\<not> hasPackageJson (r_structure S2_repo) \<and> \<not> hasTsConfig (r_structure S2_repo)
      \<and> \<not> hasWranglerConfig (r_structure S2_repo)
      \<and> length (files (r_structure S2_repo)) = 10
      \<and> \<not> list_ex (\<lambda>d. d = ''src'' \<or> startsWith d ''src/'') (directories (r_structure S2_repo))"
    by (simp add: S2_repo_def S2_structure_def)
  have readme: "\<not> list_ex (\<lambda>f. toLowerCase (f_path f) = ''readme.md'') (files (r_structure S2_repo))"
    by (simp add: S2_repo_def S2_structure_def toLowerCase_def lower_char_def)
  have "overall (calculateCohesiveness S2_repo 0) = 74"
    by code_simp
  then have "overall (calculateCohesiveness S2_repo 0) \<noteq> 71"
    by simp
  with shape readme show ?thesis
    by blast
qed

text \<open>The scorer never emits a critical issue: all five are warnings or infos.\<close>

lemma calculateCohesiveness_no_critical:
  "list_all (\<lambda>i. severity i = warning \<or> severity i = info)
     (issues (calculateCohesiveness repo now))"
  by (cases "hasPackageJson (r_structure repo)"; cases "hasTsConfig (r_structure repo)";
      cases "hasWranglerConfig (r_structure repo)";
      simp add: calculateCohesiveness_def Let_def)

lemma no_critical_filter:
  "list_all (\<lambda>i. severity i = warning \<or> severity i = info) xs \<Longrightarrow>
   filter (\<lambda>i. severity i = critical \<and> autoFixable i) xs = []"
  by (induction xs) auto


section \<open>Properties of the repo sync engine\<close>

lemma score_repos_calm:
  "calm results \<Longrightarrow> score_repos rest (rs, results, e) = (r, rs', results', e') \<Longrightarrow>
   calm results' \<and> HEALING_QUEUE e' = HEALING_QUEUE e"
proof (induction rest arbitrary: rs results e)
  case Nil
  then show ?case by simp
next
  case (Cons a rest)
  obtain repoName repoData where a: "a = (repoName, repoData)" by (cases a)
  let ?score = "calculateCohesiveness repoData (clock e)"
  have calm': "calm (results @ [(repoName, ?score)])"
    using Cons.prems(1) no_critical_filter[OF calculateCohesiveness_no_critical]
    by (simp add: calm_def)
  show ?case
  proof (cases "fault e B_REPOS_KV")
    case None
    with Cons.prems(2) have
      "score_repos rest (Map_set rs repoName (repoData\<lparr>cohesiveness := ?score\<rparr>),
                         results @ [(repoName, ?score)],
                         e\<lparr>REPOS_KV := (REPOS_KV e)(''cohesiveness:'' @ repoName \<mapsto>
                             \<lparr>kv_value = CohesivenessScore_json ?score,
                              expirationTtl = Some 3600\<rparr>)\<rparr>)
       = (r, rs', results', e')"
      by (simp add: a Let_def REPOS_KV_put_def)
    from Cons.IH[OF calm' this] show ?thesis by simp
  next
    case (Some err)
    with Cons.prems(2) calm' show ?thesis
      by (auto simp: a Let_def REPOS_KV_put_def)
  qed
qed

lemma enqueue_critical_calm:
  "calm results \<Longrightarrow> enqueue_critical results e = (Inr (), e)"
  by (induction results) (auto simp: calm_def)

lemma triggerCohesivenessCheck_healing_queue:
  "HEALING_QUEUE (snd (snd (triggerCohesivenessCheck g e))) = HEALING_QUEUE e"
proof -
  obtain r rs results e1 where
    s: "score_repos (repos g) (repos g, [], e) = (r, rs, results, e1)"
    by (metis prod_cases4)
  have "calm []" by (simp add: calm_def)
  from score_repos_calm[OF this s]
  have c: "calm results" and q: "HEALING_QUEUE e1 = HEALING_QUEUE e"
    by simp_all
  show ?thesis
    using q
    by (cases r)
       (simp_all add: triggerCohesivenessCheck_def s enqueue_critical_calm[OF c] Let_def)
qed

text \<open>
  C9. \<open>calculateCohesiveness\<close> only emits issues of severity warning or info, so for
  every repo the issues that are critical and auto-fixable are none, and
  \<open>triggerCohesivenessCheck\<close> leaves the healing queue as it found it, whatever the
  engine's state and whatever the environment does.
\<close>

theorem cohesiveness_check_never_enqueues_healing:
  "list_all (\<lambda>i. severity i = warning \<or> severity i = info)
     (issues (calculateCohesiveness repo now))
   \<and> filter (\<lambda>i. severity i = critical \<and> autoFixable i)
       (issues (calculateCohesiveness repo now)) = []
   \<and> HEALING_QUEUE (snd (snd (triggerCohesivenessCheck g e))) = HEALING_QUEUE e"
  using calculateCohesiveness_no_critical
        no_critical_filter[OF calculateCohesiveness_no_critical]
        triggerCohesivenessCheck_healing_queue
  by blast





section \<open>Properties of the job coordinator\<close>







section \<open>Properties of the self-healer\<close>

lemma Map_get_Map_set_same [simp]: "Map_get (Map_set m k v) k = Some v"
  by (induction m) (auto simp: Map_get_def)

lemma Map_get_Map_set_other [simp]: "k' \<noteq> k \<Longrightarrow> Map_get (Map_set m k v) k' = Map_get m k'"
  by (induction m) (auto simp: Map_get_def)

lemma retryOriginalOperation_frame:
  "retryOriginalOperation t e = (r, e') \<Longrightarrow> HEALING_QUEUE e' = HEALING_QUEUE e"
  by (auto simp: retryOriginalOperation_def JOBS_QUEUE_send_def split: if_splits option.splits)

lemma executeStrategy_task:
  assumes "executeStrategy t m e = (out, t2, m2, e1)"
  shows "strategy t2 = strategy t \<and> attempts t2 = attempts t \<and> maxAttempts t2 = maxAttempts t
       \<and> t_id t2 = t_id t \<and> HEALING_QUEUE e1 = HEALING_QUEUE e
       \<and> (status t2 = status t \<or> strategy t = escalate_to_agent)"
proof (cases "strategy t")
  case retry_with_backoff
  with assms show ?thesis
    by (auto simp: executeStrategy_def retryWithBackoff_def sleep_def
             dest!: retryOriginalOperation_frame split: prod.splits sum.splits)
next
  case clear_cache_retry
  with assms show ?thesis
    by (auto simp: executeStrategy_def clearRelatedCache_def REPOS_KV_delete_def
                   JOBS_KV_delete_def Let_def
             dest!: retryOriginalOperation_frame
             split: prod.splits sum.splits if_splits option.splits)
next
  case switch_endpoint
  with assms show ?thesis
    by (auto simp: executeStrategy_def trySwitchEndpoint_def Math_random_def
             split: prod.splits sum.splits)
next
  case reduce_batch_size
  with assms show ?thesis
    by (auto simp: executeStrategy_def reduceBatchAndRetry_def Let_def
             dest!: retryOriginalOperation_frame split: prod.splits sum.splits)
next
  case notify_and_skip
  with assms show ?thesis
    by (auto simp: executeStrategy_def notifyAndSkip_def HEALING_KV_put_def
             split: prod.splits sum.splits option.splits)
next
  case full_reset
  with assms show ?thesis
    by (auto simp: executeStrategy_def performFullReset_def REPOS_KV_delete_def
                   SCRAPE_QUEUE_send_def randomUUID_def Let_def
             split: prod.splits sum.splits if_splits option.splits)
next
  case escalate_to_agent
  with assms show ?thesis
    by (auto simp: executeStrategy_def escalateToAgent_def HEALING_KV_put_def
                   JOBS_QUEUE_send_def randomUUID_def
             split: prod.splits sum.splits option.splits)
qed

lemma attemptHealing_step:
  assumes run: "attemptHealing t h e = (r, h', e')"
  shows "\<exists>t'. Map_get (tasks h') (t_id t) = Some t' \<and>
           ((strategy t' = strategy t \<and> maxAttempts t' = maxAttempts t)
            \<or> (nextStrategy (STRATEGY_CONFIGS (strategy t)) = Some (strategy t')
                \<and> failed_execution r
                \<and> maxAttempts t \<le> attempts t + 1
                \<and> attempts t' = 0
                \<and> maxAttempts t' = cfg_maxAttempts (STRATEGY_CONFIGS (strategy t'))
                \<and> status t' = pending))"
proof -
  let ?t1 = "t\<lparr>status := attempting, attempts := attempts t + 1, updatedAt := clock e\<rparr>"
  let ?m1 = "(metrics h)\<lparr>totalAttempts := totalAttempts (metrics h) + 1\<rparr>"
  obtain out t2 m2 e1 where ex: "executeStrategy ?t1 ?m1 e = (out, t2, m2, e1)"
    by (metis prod_cases4)
  from executeStrategy_task[OF ex]
  have t2: "strategy t2 = strategy t" "attempts t2 = attempts t + 1"
           "maxAttempts t2 = maxAttempts t" "t_id t2 = t_id t"
    by simp_all
  show ?thesis
    using run t2 ex
    by (auto simp: attemptHealing_def Let_def failed_execution_def HEALING_QUEUE_send_def
             split: prod.splits sum.splits if_splits option.splits)
qed

lemma nextStrategy_edge:
  "nextStrategy (STRATEGY_CONFIGS s) = Some s' \<longleftrightarrow> (s, s') \<in> set escalation_graph"
  by (cases s; cases s'; simp add: escalation_graph_def)

lemma healed_step:
  "(strategy (healed t h e) = strategy t \<and> maxAttempts (healed t h e) = maxAttempts t)
   \<or> ((strategy t, strategy (healed t h e)) \<in> set escalation_graph
       \<and> failed_execution (fst (attemptHealing t h e))
       \<and> maxAttempts t \<le> attempts t + 1
       \<and> attempts (healed t h e) = 0
       \<and> maxAttempts (healed t h e) = cfg_maxAttempts (STRATEGY_CONFIGS (strategy (healed t h e)))
       \<and> status (healed t h e) = pending)"
proof -
  obtain r h' e' where run: "attemptHealing t h e = (r, h', e')"
    by (metis prod_cases3)
  from attemptHealing_step[OF run] show ?thesis
    by (auto simp: healed_def run nextStrategy_edge)
qed

lemma run_history_hd: "hd (run_history t ins) = t"
  by (cases ins) auto

lemma remdups_adj_Cons_hd: "\<exists>ys. remdups_adj (x # xs) = x # ys"
  by (induction xs arbitrary: x) auto

lemma run_history_path: "is_path (remdups_adj (map strategy (run_history t ins)))"
proof (induction ins arbitrary: t)
  case Nil
  then show ?case by simp
next
  case (Cons a ins)
  obtain h e where a: "a = (h, e)" by (cases a)
  let ?rest = "run_history (healed t h e) ins"
  obtain u us where rest: "?rest = u # us" "u = healed t h e"
    by (cases ins) auto
  have ih: "is_path (remdups_adj (map strategy (u # us)))"
    using Cons.IH[of "healed t h e"] rest by simp
  show ?case
  proof (cases "strategy u = strategy t")
    case True
    with ih show ?thesis by (simp add: a rest(1))
  next
    case False
    with healed_step[of t h e] rest(2) have "(strategy t, strategy u) \<in> set escalation_graph"
      by auto
    then have edge: "(strategy t, strategy u) \<in> set escalation_graph" .
    obtain ys where ys: "remdups_adj (map strategy (u # us)) = strategy u # ys"
      using remdups_adj_Cons_hd[of "strategy u" "map strategy us"] by auto
    have "remdups_adj (map strategy (run_history t (a # ins)))
            = strategy t # strategy u # ys"
      using False ys by (simp add: a rest(1))
    with edge ih ys show ?thesis by simp
  qed
qed

text \<open>
  One delivery to \<^verbatim>\<open>processHealingTask\<close> leaves under the task's id a task with the
  strategy of the delivered copy or with the next one.
\<close>

lemma processHealingTask_step:
  "\<exists>t'. Map_get (tasks (fst (snd (processHealingTask t h e)))) (t_id t) = Some t'
      \<and> (strategy t' = strategy t \<or> (strategy t, strategy t') \<in> set escalation_graph)"
proof (cases "SELF_HEAL_ENABLED e = ''true''")
  case False
  then show ?thesis
    by (simp add: processHealingTask_def Let_def)
next
  case True
  let ?h1 = "h\<lparr>tasks := Map_set (tasks h) (t_id t) t\<rparr>"
  obtain r h' e' where run: "attemptHealing t ?h1 e = (r, h', e')"
    by (metis prod_cases3)
  have stored: "fst (snd (processHealingTask t h e)) = h'"
    using True run by (cases r) (simp_all add: processHealingTask_def Let_def)
  from attemptHealing_step[OF run] show ?thesis
    by (auto simp: stored nextStrategy_edge)
qed

text \<open>
  C7 as stated fails. Task \<^verbatim>\<open>t1\<close> is delivered with strategy \<^verbatim>\<open>retry_with_backoff\<close> and
  three of five attempts used. The fourth attempt fails: the healer puts the updated
  copy on the healing queue and the queue processor asks for the delivered message
  again. The updated copy is delivered next, its fifth attempt fails and moves the
  stored task to \<^verbatim>\<open>clear_cache_retry\<close>. Then the first message is redelivered:
  \<open>processHealingTask\<close> stores it over the task, which is back in \<^verbatim>\<open>retry_with_backoff\<close>.
  The strategies of the task stored under \<^verbatim>\<open>t1\<close> are not a path of the graph.
\<close>

theorem stored_strategy_counterexample:
  "fst (processHealingMessage stale_copy system0) = Retry
   \<and> HEALING_QUEUE (env (snd (processHealingMessage stale_copy system0))) = [fresh_copy]
   \<and> map (map_option strategy)
        (stored_history ''t1'' [stale_copy, fresh_copy, stale_copy] healer0 env0)
       = [Some retry_with_backoff, Some clear_cache_retry, Some retry_with_backoff]
   \<and> \<not> is_path [retry_with_backoff, clear_cache_retry, retry_with_backoff]"
proof -
  have first: "processHealingTask stale_copy healer0 env0 =
      (Inr (json_response 200
         ([(''success'', JBool False)]
          @ opt_key ''task'' HealingTask_json
              (Map_get (tasks (fst (snd (attemptHealing stale_copy
                  (healer0\<lparr>tasks := [(''t1'', stale_copy)]\<rparr>) env0)))) ''t1'')
          @ [(''resolution'', HealingResolution_json
                \<lparr> r_strategy = retry_with_backoff, success = False,
                  message = ''Retry failed'', attemptNumber = 4, resolvedAt = 200008000,
                  r_metrics = Some \<lparr> timeToResolve = 8000, resourcesUsed = 1 \<rparr> \<rparr>)])),
       fst (snd (attemptHealing stale_copy (healer0\<lparr>tasks := [(''t1'', stale_copy)]\<rparr>) env0)),
       env0\<lparr>clock := 200008000, HEALING_QUEUE := [fresh_copy]\<rparr>)"
    by (simp add: processHealingTask_def attemptHealing_def executeStrategy_def
          retryWithBackoff_def retryOriginalOperation_def sleep_def backoff_at_def
          HEALING_QUEUE_send_def stale_copy_def fresh_copy_def example_task_def healer0_def
          env0_def Let_def Map_get_def)
  have msg: "fst (processHealingMessage stale_copy system0) = Retry
      \<and> HEALING_QUEUE (env (snd (processHealingMessage stale_copy system0))) = [fresh_copy]"
    by (simp add: processHealingMessage_def system0_def first json_response_def get_prop_def)
  have hist: "map (map_option strategy)
        (stored_history ''t1'' [stale_copy, fresh_copy, stale_copy] healer0 env0)
       = [Some retry_with_backoff, Some clear_cache_retry, Some retry_with_backoff]"
    by (simp add: processHealingTask_def attemptHealing_def executeStrategy_def
          retryWithBackoff_def retryOriginalOperation_def sleep_def backoff_at_def
          HEALING_QUEUE_send_def stale_copy_def fresh_copy_def example_task_def healer0_def
          env0_def Let_def Map_get_def)
  have path: "\<not> is_path [retry_with_backoff, clear_cache_retry, retry_with_backoff]"
    by (simp add: escalation_graph_def)
  from msg hist path show ?thesis by blast
qed

text \<open>
  C7, as the code has it. Let a task be executed any number of times, each execution
  given the task as the one before left it, with the healer and the environment in any
  state. The strategies it passes through, repetitions of the current one left out,
  form a path of the escalation graph. An execution changes the strategy only along an
  edge of the graph, only when it failed and the bumped attempt counter has reached
  \<open>maxAttempts\<close>; the task then has \<open>attempts = 0\<close> and the \<open>maxAttempts\<close> that
  \<open>STRATEGY_CONFIGS\<close> gives the new strategy. One delivery to \<open>processHealingTask\<close>
  leaves the stored task with the strategy of the delivered copy or with its successor
  in the graph.
\<close>

theorem strategies_follow_escalation_graph:
  "is_path (remdups_adj (map strategy (run_history t inputs)))
   \<and> (strategy (healed t h e) \<noteq> strategy t \<longrightarrow>
        (strategy t, strategy (healed t h e)) \<in> set escalation_graph
        \<and> failed_execution (fst (attemptHealing t h e))
        \<and> maxAttempts t \<le> attempts t + 1
        \<and> attempts (healed t h e) = 0
        \<and> maxAttempts (healed t h e)
            = cfg_maxAttempts (STRATEGY_CONFIGS (strategy (healed t h e))))
   \<and> (\<exists>t'. Map_get (tasks (fst (snd (processHealingTask t h e)))) (t_id t) = Some t'
          \<and> (strategy t' = strategy t \<or> (strategy t, strategy t') \<in> set escalation_graph))"
  using run_history_path[of t inputs] healed_step[of t h e] processHealingTask_step[of t h e]
  by blast

lemma example_healed:
  "healed (example_task retry_with_backoff 4 5 pending) healer0 env0
     = (example_task clear_cache_retry 0 2 pending)
         \<lparr> resolution := Some \<lparr> r_strategy = clear_cache_retry, success = False,
                                 message = ''Retry failed'', attemptNumber = 0,
                                 resolvedAt = 200016000,
                                 r_metrics = Some \<lparr> timeToResolve = 16000, resourcesUsed = 1 \<rparr> \<rparr>,
           updatedAt := 200016000 \<rparr>"
  by (simp add: healed_def attemptHealing_def executeStrategy_def retryWithBackoff_def
        retryOriginalOperation_def sleep_def backoff_at_def HEALING_QUEUE_send_def
        example_task_def healer0_def env0_def Let_def Map_get_def)

theorem strategies_follow_escalation_graph_witness:
  "strategy (healed (example_task retry_with_backoff 4 5 pending) healer0 env0) = clear_cache_retry
   \<and> attempts (healed (example_task retry_with_backoff 4 5 pending) healer0 env0) = 0
   \<and> maxAttempts (healed (example_task retry_with_backoff 4 5 pending) healer0 env0) = 2
   \<and> failed_execution (fst (attemptHealing (example_task retry_with_backoff 4 5 pending) healer0 env0))
   \<and> is_path (remdups_adj (map strategy
        (run_history (example_task retry_with_backoff 4 5 pending) [(healer0, env0), (healer0, env0)])))"
  using strategies_follow_escalation_graph
          [of "example_task retry_with_backoff 4 5 pending"
              "[(healer0, env0), (healer0, env0)]" healer0 env0]
  by (simp add: example_healed) (simp add: example_task_def)

lemma strategy_stat_Map_set [simp]: "strategy_stat (Map_set ss s v) s = v"
  by (simp add: strategy_stat_def)

text \<open>
  C10 as stated fails. With a healing KV whose \<^verbatim>\<open>put\<close> throws, \<^verbatim>\<open>escalateToAgent\<close> throws
  before the strategy body counts the escalation: one execution of a task with
  strategy \<^verbatim>\<open>escalate_to_agent\<close> and \<open>maxAttempts = 1\<close> adds 1 to \<open>escalations\<close>, not 2.
\<close>

theorem escalate_to_agent_counterexample:
  "strategy (example_task escalate_to_agent 0 1 pending) = escalate_to_agent
   \<and> maxAttempts (example_task escalate_to_agent 0 1 pending) = 1
   \<and> escalations (metrics healer0) = 0
   \<and> escalations (metrics (fst (snd (attemptHealing
        (example_task escalate_to_agent 0 1 pending) healer0 healing_kv_down)))) = 1"
  by (simp add: attemptHealing_def executeStrategy_def escalateToAgent_def HEALING_KV_put_def
        example_task_def healer0_def healing_kv_down_def env0_def Let_def)

text \<open>
  C10, as the code has it. For a task whose strategy is \<^verbatim>\<open>escalate_to_agent\<close> and whose
  \<open>maxAttempts\<close> is 1, one execution of \<open>attemptHealing\<close> adds exactly 1 to
  \<open>failedResolutions\<close>, returns a resolution with \<open>success\<close> false and counts no success,
  neither in the metrics nor for the strategy. It adds exactly 2 to \<open>escalations\<close> when
  \<^verbatim>\<open>escalateToAgent\<close> completes, that is when the healing KV and the job queue accept its
  writes: once in the strategy body and once in the exhaustion branch. When
  \<^verbatim>\<open>escalateToAgent\<close> throws, the body's increment is skipped and \<open>escalations\<close> grows by
  exactly 1.
\<close>

theorem escalate_to_agent_counts_escalation_twice:
  assumes "strategy task = escalate_to_agent" and "maxAttempts task = 1"
  shows "escalations (metrics (fst (snd (attemptHealing task h e))))
           = escalations (metrics h)
             + (if fault e B_HEALING_KV = None \<and> fault e B_JOBS_QUEUE = None then 2 else 1)
       \<and> failedResolutions (metrics (fst (snd (attemptHealing task h e))))
           = failedResolutions (metrics h) + 1
       \<and> successfulResolutions (metrics (fst (snd (attemptHealing task h e))))
           = successfulResolutions (metrics h)
       \<and> st_successes (strategy_stat (strategies (fst (snd (attemptHealing task h e)))) escalate_to_agent)
           = st_successes (strategy_stat (strategies h) escalate_to_agent)
       \<and> (case fst (attemptHealing task h e) of Inr res \<Rightarrow> \<not> success res | Inl err \<Rightarrow> False)"
  using assms
  by (cases "fault e B_HEALING_KV"; cases "fault e B_JOBS_QUEUE")
     (simp_all add: attemptHealing_def executeStrategy_def escalateToAgent_def HEALING_KV_put_def
        JOBS_QUEUE_send_def randomUUID_def Let_def)

theorem escalate_to_agent_counts_escalation_twice_witness:
  "escalations (metrics (fst (snd (attemptHealing (example_task escalate_to_agent 0 1 pending) healer0 env0)))) = 2
   \<and> failedResolutions (metrics (fst (snd (attemptHealing (example_task escalate_to_agent 0 1 pending) healer0 env0)))) = 1
   \<and> successfulResolutions (metrics (fst (snd (attemptHealing (example_task escalate_to_agent 0 1 pending) healer0 env0)))) = 0"
  using escalate_to_agent_counts_escalation_twice
          [where task = "example_task escalate_to_agent 0 1 pending" and h = healer0
             and e = env0]
  by (simp add: example_task_def env0_def healer0_def)

lemma attemptHealing_ignores_status:
  "attemptHealing (t\<lparr>status := s\<rparr>) h e = attemptHealing t h e"
  by (simp add: attemptHealing_def)

lemma escalate_exhausted:
  assumes "strategy task = escalate_to_agent" and "maxAttempts task \<le> attempts task + 1"
  shows "status (healed task h e) = escalated
       \<and> HEALING_QUEUE (snd (snd (attemptHealing task h e))) = HEALING_QUEUE e"
  using assms
  by (cases "fault e B_HEALING_KV"; cases "fault e B_JOBS_QUEUE")
     (simp_all add: healed_def attemptHealing_def executeStrategy_def escalateToAgent_def
        HEALING_KV_put_def JOBS_QUEUE_send_def randomUUID_def Let_def)

lemma resolveTask_resolves:
  assumes "Map_get (tasks h) taskId = Some t"
  shows "map_option status (Map_get (tasks (fst (snd (resolveTask taskId res h e)))) taskId)
           = Some resolved"
  using assms by (simp add: resolveTask_def Let_def)

lemma Map_set_Map_set [simp]: "Map_set (Map_set m k a) k b = Map_set m k b"
  by (induction m) auto

text \<open>
  What is stored under the task's id when \<open>attemptHealing\<close> starts does not matter: it
  is overwritten.
\<close>

lemma attemptHealing_overwrites:
  "attemptHealing t (h\<lparr>tasks := Map_set (tasks h) (t_id t) x\<rparr>) e = attemptHealing t h e"
proof -
  let ?t1 = "t\<lparr>status := attempting, attempts := attempts t + 1, updatedAt := clock e\<rparr>"
  let ?m1 = "(metrics h)\<lparr>totalAttempts := totalAttempts (metrics h) + 1\<rparr>"
  obtain out t2 m2 e1 where ex: "executeStrategy ?t1 ?m1 e = (out, t2, m2, e1)"
    by (metis prod_cases4)
  from executeStrategy_task[OF ex] have t2: "t_id t2 = t_id t"
    by simp
  show ?thesis
    using t2 ex
    by (auto simp: attemptHealing_def Let_def HEALING_QUEUE_send_def
             split: prod.splits sum.splits if_splits option.splits)
qed

lemma processHealingTask_ignores_status:
  "processHealingTask (task\<lparr>status := s\<rparr>) h e = processHealingTask task h e"
proof -
  have "attemptHealing (task\<lparr>status := s\<rparr>)
          (h\<lparr>tasks := Map_set (tasks h) (t_id task) (task\<lparr>status := s\<rparr>)\<rparr>) e
        = attemptHealing task (h\<lparr>tasks := Map_set (tasks h) (t_id task) task\<rparr>) e"
    using attemptHealing_overwrites[of task h "task\<lparr>status := s\<rparr>" e]
          attemptHealing_overwrites[of task h task e]
    by (simp add: attemptHealing_ignores_status)
  then show ?thesis
    by (simp add: processHealingTask_def Let_def split: prod.splits sum.splits)
qed

text \<open>
  C3, as the code has it. The healer does not protect a terminal status.
  \<open>resolveTask\<close> sets any stored task to resolved: a resolved task stays resolved under
  it, an escalated one becomes resolved. \<open>attemptHealing\<close> and \<open>processHealingTask\<close> do
  not read the status of the task they are given: they do the same for a resolved or
  escalated task as for a pending one. A task whose strategy is \<^verbatim>\<open>escalate_to_agent\<close>
  ends an execution escalated and is not put on the healing queue when the bumped
  attempt counter reaches \<open>maxAttempts\<close>, as it always does for the configured
  \<open>maxAttempts = 1\<close>.
\<close>

theorem terminal_status_as_implemented:
  "(Map_get (tasks h) taskId = Some t \<longrightarrow>
      map_option status (Map_get (tasks (fst (snd (resolveTask taskId res h e)))) taskId)
        = Some resolved)
   \<and> attemptHealing (task\<lparr>status := s\<rparr>) h e = attemptHealing task h e
   \<and> processHealingTask (task\<lparr>status := s\<rparr>) h e = processHealingTask task h e
   \<and> (strategy task = escalate_to_agent \<and> maxAttempts task \<le> attempts task + 1 \<longrightarrow>
        status (healed task h e) = escalated
        \<and> HEALING_QUEUE (snd (snd (attemptHealing task h e))) = HEALING_QUEUE e)"
  using resolveTask_resolves[of h taskId t res e]
        attemptHealing_ignores_status[where t = task and s = s and h = h and e = e]
        processHealingTask_ignores_status[where task = task and s = s and h = h and e = e]
        escalate_exhausted[of task h e]
  by blast

lemma escalated_healer_status:
  "map_option status (Map_get (tasks escalated_healer) ''t1'') = Some escalated"
  by (simp add: escalated_healer_def attemptHealing_def executeStrategy_def escalateToAgent_def
        HEALING_KV_put_def JOBS_QUEUE_send_def randomUUID_def Let_def
        example_task_def env0_def healer0_def Map_get_def)

theorem terminal_status_as_implemented_witness:
  "map_option status (Map_get (tasks escalated_healer) ''t1'') = Some escalated
   \<and> map_option status
        (Map_get (tasks (fst (snd (resolveTask ''t1'' example_resolution escalated_healer env0)))) ''t1'')
       = Some resolved
   \<and> status (healed (example_task escalate_to_agent 0 1 pending) escalated_healer env0) = escalated
   \<and> HEALING_QUEUE (snd (snd (attemptHealing (example_task escalate_to_agent 0 1 pending)
          escalated_healer env0))) = HEALING_QUEUE env0"
proof -
  obtain t where t: "Map_get (tasks escalated_healer) ''t1'' = Some t"
    using escalated_healer_status by (cases "Map_get (tasks escalated_healer) ''t1''") auto
  have ex: "strategy (example_task escalate_to_agent 0 1 pending) = escalate_to_agent
      \<and> maxAttempts (example_task escalate_to_agent 0 1 pending)
          \<le> attempts (example_task escalate_to_agent 0 1 pending) + 1"
    by (simp add: example_task_def)
  from terminal_status_as_implemented
         [where h = escalated_healer and taskId = "''t1''" and t = t
            and res = example_resolution and e = env0
            and task = "example_task escalate_to_agent 0 1 pending" and s = pending]
       t ex escalated_healer_status
  show ?thesis by blast
qed

text \<open>
  C3 as stated fails. The task that the healer has just escalated is resolved by
  \<open>resolveTask\<close>; and a task in strategy \<^verbatim>\<open>escalate_to_agent\<close> with \<open>maxAttempts = 3\<close>, as
  the sync engine builds them, is pending after its first execution and back on the
  healing queue.
\<close>

theorem terminal_status_counterexample:
  "map_option status (Map_get (tasks escalated_healer) ''t1'') = Some escalated
   \<and> map_option status
        (Map_get (tasks (fst (snd (resolveTask ''t1'' example_resolution escalated_healer env0)))) ''t1'')
       = Some resolved
   \<and> strategy (example_task escalate_to_agent 0 3 pending) = escalate_to_agent
   \<and> status (healed (example_task escalate_to_agent 0 3 pending) healer0 env0) = pending
   \<and> map t_id (HEALING_QUEUE (snd (snd (attemptHealing (example_task escalate_to_agent 0 3 pending) healer0 env0))))
       = [''t1'']"
proof -
  obtain t where t: "Map_get (tasks escalated_healer) ''t1'' = Some t"
    using escalated_healer_status by (cases "Map_get (tasks escalated_healer) ''t1''") auto
  have a: "map_option status
        (Map_get (tasks (fst (snd (resolveTask ''t1'' example_resolution escalated_healer env0)))) ''t1'')
       = Some resolved"
    using t by (simp add: resolveTask_def Let_def)
  have b: "status (healed (example_task escalate_to_agent 0 3 pending) healer0 env0) = pending
     \<and> map t_id (HEALING_QUEUE (snd (snd (attemptHealing (example_task escalate_to_agent 0 3 pending) healer0 env0))))
       = [''t1'']"
    by (simp add: healed_def attemptHealing_def executeStrategy_def escalateToAgent_def
        HEALING_KV_put_def JOBS_QUEUE_send_def HEALING_QUEUE_send_def randomUUID_def Let_def
        example_task_def env0_def healer0_def Map_get_def)
  have c: "strategy (example_task escalate_to_agent 0 3 pending) = escalate_to_agent"
    by (simp add: example_task_def)
  from escalated_healer_status a b c show ?thesis by blast
qed

section \<open>Properties of the queue processors\<close>
















text \<open>
  The scrape processor never changes the engine's repo map: what it sends to the engine
  is \<^verbatim>\<open>POST /sync/repo\<close>, and \<open>syncRepo\<close> only enqueues a scrape task.
\<close>

lemma processScrapeMessage_repos:
  "repos (syncEngine (snd (processScrapeMessage scrapeRepo task sys))) = repos (syncEngine sys)"
  by (simp add: processScrapeMessage_def syncRepo_def randomUUID_def SCRAPE_QUEUE_send_def
        REPOS_KV_put_def HEALING_QUEUE_send_def
      split: sum.splits option.splits prod.splits)

text \<open>
  C1, on scenario S1. The scraper returns data for \<^verbatim>\<open>acme/foo\<close>; the processor acks and
  writes the data to the shared KV under \<^verbatim>\<open>repo:acme/foo\<close> with a TTL of 3600 seconds,
  but the engine's repo map has no entry for \<^verbatim>\<open>acme/foo\<close> afterwards: the engine has
  only put one more full scrape of \<^verbatim>\<open>acme/foo\<close>, of priority high, on the scrape queue.
  \<open>updateRepo\<close>, which would record the data, is not on the processor's path.
\<close>

theorem scrape_processor_does_not_record:
  "fst (processScrapeMessage S1_scraper S1_task system0) = Inr Ack
   \<and> Map_get (repos (syncEngine (snd (processScrapeMessage S1_scraper S1_task system0))))
        ''acme/foo'' = None
   \<and> map (\<lambda>t. (repoFullName t, scrapeType t, s_priority t))
        (SCRAPE_QUEUE (env (snd (processScrapeMessage S1_scraper S1_task system0))))
       = [(''acme/foo'', S_full, P_high)]
   \<and> REPOS_KV (env (snd (processScrapeMessage S1_scraper S1_task system0))) ''repo:acme/foo''
       = Some \<lparr> kv_value = RepoData_json S1_repo, expirationTtl = Some 3600 \<rparr>
   \<and> HEALING_QUEUE (env (snd (processScrapeMessage S1_scraper S1_task system0))) = []
   \<and> Map_get (repos (fst (snd (updateRepo S1_repo engine0 env0)))) ''acme/foo'' = Some S1_repo"
proof -
  have run: "processScrapeMessage S1_scraper S1_task system0 =
      (Inr Ack,
       system0\<lparr>env := env0\<lparr>uuid_count := 1,
          SCRAPE_QUEUE := [\<lparr> s_id = ''uuid-0'', repoFullName = ''acme/foo'', scrapeType = S_full,
                             lastScrapeAt = None, s_etag = None, s_priority = P_high \<rparr>],
          REPOS_KV := (REPOS_KV env0)(''repo:acme/foo'' \<mapsto>
             \<lparr> kv_value = RepoData_json S1_repo, expirationTtl = Some 3600 \<rparr>)\<rparr>\<rparr>)"
    by (simp add: processScrapeMessage_def S1_scraper_def S1_task_def syncRepo_def
          randomUUID_def SCRAPE_QUEUE_send_def REPOS_KV_put_def system0_def env0_def
          show_nat.simps digit_char_def)
  have base: "repos (syncEngine system0) = []" "HEALING_QUEUE env0 = []"
    by (simp_all add: system0_def engine0_def env0_def)
  have sibling: "Map_get (repos (fst (snd (updateRepo S1_repo engine0 env0)))) ''acme/foo''
      = Some S1_repo"
    by (simp add: updateRepo_def Let_def S1_repo_def split: prod.splits)
  from base sibling show ?thesis
    by (simp add: run Map_get_def)
qed

end
